theory Spec2Isabelle
  imports Main "HOL-Library.Word"
begin

section \<open>Values that cross the native boundary\<close>

text \<open>
  Addresses (library handles, function pointers, JNI object and method references) are
  natural numbers, the null pointer being 0. C \<open>int\<close> and JNI \<open>jint\<close> are 32-bit words
  read as two's complement. A \<open>jfloat\<close> is only ever stored and handed on, so it is kept
  as its 32-bit pattern. A C string is the list of its bytes before the terminating NUL.
  \<open>AFunc\<close> is the address of a function of the adapter itself, given by its name.
\<close>

type_synonym ptr = nat
type_synonym int32 = "32 word"
type_synonym jfloat = "32 word"

abbreviation NULL :: ptr where
  "NULL \<equiv> 0"

datatype arg = AInt int32 | AFloat jfloat | AStr string | APtr ptr | AFunc string

datatype dlflag = RTLD_LAZY | RTLD_NOW | RTLD_NOLOAD | RTLD_GLOBAL

datatype prio = ANDROID_LOG_INFO | ANDROID_LOG_ERROR

datatype thread_fn = BridgeThreadFunc | EmbeddedBridgeThreadFunc | NodeThreadFunc

text \<open>
  Everything the adapter does to the world outside its own statics is one event of the
  process's effect trace, in program order. What a thread the adapter has started does
  is tagged with that thread's start routine (\<open>InThread\<close>).
\<close>

datatype event =
    Dlopen string "dlflag set"
  | Dlsym ptr string
  | Call ptr "arg list"
  | Log prio string "arg list"
  | PthreadCreate thread_fn
  | Usleep nat
  | JGetEnv
  | JAttachCurrentThread
  | JDetachCurrentThread
  | JNewDirectByteBuffer ptr int32
  | JCallVoidMethod ptr ptr "arg list"
  | JDeleteLocalRef ptr
  | JNewGlobalRef ptr
  | JDeleteGlobalRef ptr
  | JGetMethodID ptr string string
  | JNewStringUTF string
  | InThread thread_fn event

text \<open>
  What a call made by the adapter comes to: it returns a value, it never returns (a
  blocking peer entry point), or a jump through a null function pointer ends the
  process.
\<close>

datatype 'a outcome = Returns 'a | Blocks | NullCall

section \<open>The platform: dynamic linker, peer code, threads, the Java VM\<close>

text \<open>
  None of this is code of the repository; it is the environment the adapter runs in,
  and every theorem quantifies over it. What the adapter can only ask about is the
  \<open>platform\<close>:
  \<^item> \<open>loadable\<close>: the handle a library would get if the linker loaded it now;
  \<^item> \<open>symtab\<close>: the address of each exported symbol of a handle (NULL if absent);
  \<^item> \<open>peer_ret\<close>: what the code at an address returns for given arguments, \<open>None\<close> when it
    never returns;
  \<^item> \<open>pthread_create_ret\<close>, \<open>attach_ret\<close>: the status thread creation and attaching to
    the VM answer with;
  \<^item> \<open>utf_chars\<close>, \<open>global_ref\<close>, \<open>object_class\<close>, \<open>method_id\<close>, \<open>direct_buffer\<close>: the
    answers of the JNI functions of those names (\<open>None\<close> and NULL for failure).
\<close>

record platform =
  loadable :: "string \<Rightarrow> ptr"
  symtab :: "ptr \<Rightarrow> string \<Rightarrow> ptr"
  dlerror :: string
  peer_ret :: "ptr \<Rightarrow> arg list \<Rightarrow> int32 option"
  getpid :: int32
  pthread_create_ret :: int32
  attach_ret :: int32
  utf_chars :: "string \<Rightarrow> string option"
  global_ref :: "ptr \<Rightarrow> ptr"
  object_class :: "ptr \<Rightarrow> ptr"
  method_id :: "ptr \<Rightarrow> string \<Rightarrow> string \<Rightarrow> ptr"
  direct_buffer :: "ptr \<Rightarrow> int32 \<Rightarrow> ptr"

text \<open>
  What the adapter changes outside its own statics is the \<open>world\<close>:
  \<^item> \<open>resident\<close>: the handle of each library already mapped into the process (NULL if not);
  \<^item> \<open>thread_attached\<close>: whether the calling thread is attached to the Java VM;
  \<^item> \<open>clock\<close>: microseconds elapsed on the calling thread;
  \<^item> \<open>trace\<close>: the effects so far.
\<close>

record world =
  resident :: "string \<Rightarrow> ptr"
  thread_attached :: bool
  clock :: nat
  trace :: "event list"

definition emit :: "event \<Rightarrow> world \<Rightarrow> world" where
  "emit e w = w\<lparr>trace := trace w @ [e]\<rparr>"

definition LOGI :: "string \<Rightarrow> arg list \<Rightarrow> world \<Rightarrow> world" where
  "LOGI fmt args w = emit (Log ANDROID_LOG_INFO fmt args) w"

definition LOGE :: "string \<Rightarrow> arg list \<Rightarrow> world \<Rightarrow> world" where
  "LOGE fmt args w = emit (Log ANDROID_LOG_ERROR fmt args) w"

text \<open>
  \<open>dlopen(3)\<close>: a resident library yields its handle; otherwise \<open>RTLD_NOLOAD\<close> makes the
  call fail, and without that flag the linker loads the library, which becomes resident.
\<close>

definition dlopen :: "platform \<Rightarrow> string \<Rightarrow> dlflag set \<Rightarrow> world \<Rightarrow> ptr \<times> world" where
  "dlopen pf name flags w =
     (let w1 = emit (Dlopen name flags) w in
      if resident w name \<noteq> NULL then (resident w name, w1)
      else if RTLD_NOLOAD \<in> flags then (NULL, w1)
      else (loadable pf name, w1\<lparr>resident := (resident w)(name := loadable pf name)\<rparr>))"

definition dlsym :: "platform \<Rightarrow> ptr \<Rightarrow> string \<Rightarrow> world \<Rightarrow> ptr \<times> world" where
  "dlsym pf h name w = (symtab pf h name, emit (Dlsym h name) w)"

text \<open>A call through a function pointer into the peer library.\<close>

definition call_ptr :: "platform \<Rightarrow> ptr \<Rightarrow> arg list \<Rightarrow> world \<Rightarrow> int32 outcome \<times> world" where
  "call_ptr pf f args w =
     (if f = NULL then (NullCall, w)
      else (case peer_ret pf f args of None \<Rightarrow> Blocks | Some r \<Rightarrow> Returns r,
            emit (Call f args) w))"

text \<open>A call of a peer entry point of C type \<open>void\<close>: a notification, taken to return.\<close>

definition call_void :: "ptr \<Rightarrow> arg list \<Rightarrow> world \<Rightarrow> world" where
  "call_void f args w = emit (Call f args) w"

text \<open>
  \<open>pthread_create\<close>: when the platform refuses, the status is all there is. Otherwise
  the new thread runs its start routine, with a VM attachment and a trace of its own, on
  the process as the creator left it; what it does is put, tagged, right behind the
  creation, so the worker is taken to get as far as it gets while its creator goes on.
  A worker that jumps through a null function pointer ends the process, and with it the
  creator's call; a worker that returns or blocks leaves the creator with status 0.
\<close>

definition pthread_create ::
  "platform \<Rightarrow> thread_fn \<Rightarrow> (world \<Rightarrow> ptr outcome \<times> world) \<Rightarrow> world
     \<Rightarrow> int32 outcome \<times> world" where
  "pthread_create pf fn start_routine w =
     (let w = emit (PthreadCreate fn) w in
      if pthread_create_ret pf \<noteq> 0 then (Returns (pthread_create_ret pf), w)
      else
        let (out, ww) = start_routine (w\<lparr>thread_attached := False, trace := []\<rparr>);
            w = w\<lparr>resident := resident ww,
                  trace := trace w @ map (InThread fn) (trace ww)\<rparr>
        in (case out of
              Returns v \<Rightarrow> Returns 0
            | Blocks \<Rightarrow> Returns 0
            | NullCall \<Rightarrow> NullCall,
            w))"

text \<open>\<open>usleep\<close> runs to its end: no signal handler cuts the wait short.\<close>

definition usleep :: "nat \<Rightarrow> world \<Rightarrow> world" where
  "usleep us w = emit (Usleep us) (w\<lparr>clock := clock w + us\<rparr>)"

section \<open>jni-wrapper.c: the statics\<close>

record statics =
  g_socketDir :: string
  g_bridgeHandle :: ptr
  g_TsyneInit :: ptr
  g_StartBridgeMsgpackUDS :: ptr
  g_StartBridgeMsgpackUDSWithDir :: ptr
  g_StartBridgeGrpc :: ptr
  g_StartBridgeAndroidEmbedded :: ptr
  g_SetAndroidRenderCallback :: ptr
  g_SetAndroidScreenSize :: ptr
  g_SendAndroidTouchDown :: ptr
  g_SendAndroidTouchMove :: ptr
  g_SendAndroidTouchUp :: ptr
  g_javaVM :: ptr
  g_renderSurface :: ptr
  g_onFrameMethod :: ptr
  g_screenWidth :: jfloat
  g_screenHeight :: jfloat
  g_bridgeTestMode :: int32

text \<open>The statics as the C initialisers leave them when the library is loaded.\<close>

definition statics0 :: statics where
  "statics0 =
     \<lparr>g_socketDir = [], g_bridgeHandle = NULL, g_TsyneInit = NULL,
      g_StartBridgeMsgpackUDS = NULL, g_StartBridgeMsgpackUDSWithDir = NULL,
      g_StartBridgeGrpc = NULL, g_StartBridgeAndroidEmbedded = NULL,
      g_SetAndroidRenderCallback = NULL, g_SetAndroidScreenSize = NULL,
      g_SendAndroidTouchDown = NULL, g_SendAndroidTouchMove = NULL,
      g_SendAndroidTouchUp = NULL, g_javaVM = NULL, g_renderSurface = NULL,
      g_onFrameMethod = NULL, g_screenWidth = 0, g_screenHeight = 0,
      g_bridgeTestMode = 0\<rparr>"

section \<open>jni-wrapper.c: resolving the bridge library\<close>

definition initFunctionPointers :: "platform \<Rightarrow> statics \<Rightarrow> world \<Rightarrow> int32 \<times> statics \<times> world" where
  "initFunctionPointers pf g w =
     (if g_TsyneInit g \<noteq> NULL then (1, g, w)
      else
        let (h, w) = dlopen pf ''libtsyne-bridge.so'' {RTLD_NOW, RTLD_NOLOAD} w;
            g = g\<lparr>g_bridgeHandle := h\<rparr>
        in if h = NULL then
             (0, g, LOGE ''Failed to get handle for libtsyne-bridge.so: %s'' [AStr (dlerror pf)] w)
        else
        let w = LOGI ''Got handle to libtsyne-bridge.so'' [] w;
            (p, w) = dlsym pf h ''TsyneInit'' w;
            g = g\<lparr>g_TsyneInit := p\<rparr>
        in if p = NULL then
             (0, g, LOGE ''Failed to find TsyneInit: %s'' [AStr (dlerror pf)] w)
        else
        let (p, w) = dlsym pf h ''StartBridgeMsgpackUDS'' w;
            g = g\<lparr>g_StartBridgeMsgpackUDS := p\<rparr>
        in if p = NULL then
             (0, g, LOGE ''Failed to find StartBridgeMsgpackUDS: %s'' [AStr (dlerror pf)] w)
        else
        let (p, w) = dlsym pf h ''StartBridgeMsgpackUDSWithDir'' w;
            g = g\<lparr>g_StartBridgeMsgpackUDSWithDir := p\<rparr>;
            w = (if p \<noteq> NULL
                 then LOGI ''Found StartBridgeMsgpackUDSWithDir (Android socket directory support)'' [] w
                 else w);
            (p, w) = dlsym pf h ''StartBridgeGrpc'' w;
            g = g\<lparr>g_StartBridgeGrpc := p\<rparr>
        in if p = NULL then
             (0, g, LOGE ''Failed to find StartBridgeGrpc: %s'' [AStr (dlerror pf)] w)
        else
        let (p, w) = dlsym pf h ''StartBridgeAndroidEmbedded'' w;
            g = g\<lparr>g_StartBridgeAndroidEmbedded := p\<rparr>;
            w = (if p \<noteq> NULL
                 then LOGI ''Found StartBridgeAndroidEmbedded (embedded rendering support)'' [] w
                 else w);
            (p, w) = dlsym pf h ''SetAndroidRenderCallback'' w;
            g = g\<lparr>g_SetAndroidRenderCallback := p\<rparr>;
            (p, w) = dlsym pf h ''SetAndroidScreenSize'' w;
            g = g\<lparr>g_SetAndroidScreenSize := p\<rparr>;
            (p, w) = dlsym pf h ''SendAndroidTouchDown'' w;
            g = g\<lparr>g_SendAndroidTouchDown := p\<rparr>;
            (p, w) = dlsym pf h ''SendAndroidTouchMove'' w;
            g = g\<lparr>g_SendAndroidTouchMove := p\<rparr>;
            (p, w) = dlsym pf h ''SendAndroidTouchUp'' w;
            g = g\<lparr>g_SendAndroidTouchUp := p\<rparr>
        in (1, g, LOGI ''Successfully loaded all function pointers from tsyne-bridge'' [] w))"

section \<open>jni-wrapper.c: the synchronous wrappers\<close>

text \<open>
  The JNI exports \<open>Java_com_tsyne_phonetop_MainActivity_X\<close> go by their last part \<open>X\<close>,
  the name the host calls them by. Their \<open>env\<close> and \<open>clazz\<close> arguments carry nothing
  the wrappers read; the JNI functions reached through \<open>env\<close> are steps on the world.
\<close>

definition TsyneInit ::
  "platform \<Rightarrow> int32 \<Rightarrow> statics \<Rightarrow> world \<Rightarrow> int32 outcome \<times> statics \<times> world" where
  "TsyneInit pf headless g w =
     (let (ok, g, w) = initFunctionPointers pf g w in
      if ok = 0 then (Returns (- 1), g, w)
      else
        let w = LOGI ''JNI: Calling TsyneInit(%d)'' [AInt headless] w;
            (res, w) = call_ptr pf (g_TsyneInit g) [AInt headless] w
        in case res of
             Returns result \<Rightarrow>
               (Returns result, g, LOGI ''JNI: TsyneInit returned %d'' [AInt result] w)
           | Blocks \<Rightarrow> (Blocks, g, w)
           | NullCall \<Rightarrow> (NullCall, g, w))"

definition StartBridgeMsgpackUDS ::
  "platform \<Rightarrow> int32 \<Rightarrow> statics \<Rightarrow> world \<Rightarrow> int32 outcome \<times> statics \<times> world" where
  "StartBridgeMsgpackUDS pf testMode g w =
     (let (ok, g, w) = initFunctionPointers pf g w in
      if ok = 0 then (Returns (- 1), g, w)
      else
        let w = LOGI ''JNI: Calling StartBridgeMsgpackUDS(%d)'' [AInt testMode] w;
            (res, w) = call_ptr pf (g_StartBridgeMsgpackUDS g) [AInt testMode] w
        in case res of
             Returns result \<Rightarrow>
               (Returns result, g, LOGI ''JNI: StartBridgeMsgpackUDS returned %d'' [AInt result] w)
           | Blocks \<Rightarrow> (Blocks, g, w)
           | NullCall \<Rightarrow> (NullCall, g, w))"

definition StartBridgeGrpc ::
  "platform \<Rightarrow> int32 \<Rightarrow> statics \<Rightarrow> world \<Rightarrow> int32 outcome \<times> statics \<times> world" where
  "StartBridgeGrpc pf testMode g w =
     (let (ok, g, w) = initFunctionPointers pf g w in
      if ok = 0 then (Returns (- 1), g, w)
      else
        let w = LOGI ''JNI: Calling StartBridgeGrpc(%d)'' [AInt testMode] w;
            (res, w) = call_ptr pf (g_StartBridgeGrpc g) [AInt testMode] w
        in case res of
             Returns result \<Rightarrow>
               (Returns result, g, LOGI ''JNI: StartBridgeGrpc returned %d'' [AInt result] w)
           | Blocks \<Rightarrow> (Blocks, g, w)
           | NullCall \<Rightarrow> (NullCall, g, w))"

section \<open>The Java VM as the adapter uses it\<close>

definition JNI_OK :: int32 where
  "JNI_OK = 0"

definition JNI_EDETACHED :: int32 where
  "JNI_EDETACHED = - 2"

definition JNI_VERSION_1_6 :: int32 where
  "JNI_VERSION_1_6 = 0x00010006"

text \<open>\<open>GetEnv\<close> succeeds exactly on a thread that is attached to the VM.\<close>

definition GetEnv :: "world \<Rightarrow> int32 \<times> world" where
  "GetEnv w = (if thread_attached w then JNI_OK else JNI_EDETACHED, emit JGetEnv w)"

definition AttachCurrentThread :: "platform \<Rightarrow> world \<Rightarrow> int32 \<times> world" where
  "AttachCurrentThread pf w =
     (attach_ret pf,
      emit JAttachCurrentThread
        (if attach_ret pf = JNI_OK then w\<lparr>thread_attached := True\<rparr> else w))"

definition DetachCurrentThread :: "world \<Rightarrow> world" where
  "DetachCurrentThread w = emit JDetachCurrentThread (w\<lparr>thread_attached := False\<rparr>)"

definition NewDirectByteBuffer :: "platform \<Rightarrow> ptr \<Rightarrow> int32 \<Rightarrow> world \<Rightarrow> ptr \<times> world" where
  "NewDirectByteBuffer pf address capacity w =
     (direct_buffer pf address capacity, emit (JNewDirectByteBuffer address capacity) w)"

definition CallVoidMethod :: "ptr \<Rightarrow> ptr \<Rightarrow> arg list \<Rightarrow> world \<Rightarrow> world" where
  "CallVoidMethod obj mid args w = emit (JCallVoidMethod obj mid args) w"

definition DeleteLocalRef :: "ptr \<Rightarrow> world \<Rightarrow> world" where
  "DeleteLocalRef r w = emit (JDeleteLocalRef r) w"

definition NewGlobalRef :: "platform \<Rightarrow> ptr \<Rightarrow> world \<Rightarrow> ptr \<times> world" where
  "NewGlobalRef pf obj w = (global_ref pf obj, emit (JNewGlobalRef obj) w)"

definition DeleteGlobalRef :: "ptr \<Rightarrow> world \<Rightarrow> world" where
  "DeleteGlobalRef r w = emit (JDeleteGlobalRef r) w"

definition GetMethodID :: "platform \<Rightarrow> ptr \<Rightarrow> string \<Rightarrow> string \<Rightarrow> world \<Rightarrow> ptr \<times> world" where
  "GetMethodID pf cls name sig w = (method_id pf cls name sig, emit (JGetMethodID cls name sig) w)"

section \<open>jni-wrapper.c: callback delivery\<close>

definition JNI_OnLoad :: "ptr \<Rightarrow> statics \<Rightarrow> world \<Rightarrow> int32 \<times> statics \<times> world" where
  "JNI_OnLoad vm g w =
     (JNI_VERSION_1_6, g\<lparr>g_javaVM := vm\<rparr>, LOGI ''JNI_OnLoad: JavaVM captured'' [] w)"

definition nativeRenderCallback ::
  "platform \<Rightarrow> ptr \<Rightarrow> int32 \<Rightarrow> int32 \<Rightarrow> int32 \<Rightarrow> statics \<Rightarrow> world \<Rightarrow> world" where
  "nativeRenderCallback pf pixels width height stride g w =
     (if g_javaVM g = NULL \<or> g_renderSurface g = NULL then w
      else
        let (rc, w) = GetEnv w;
            (attached, bail, w) =
              (if rc \<noteq> JNI_OK then
                 let (rc, w) = AttachCurrentThread pf w in
                 if rc \<noteq> JNI_OK
                 then (0 :: int32, True, LOGE ''Failed to attach thread for render callback'' [] w)
                 else (1, False, w)
               else (0, False, w))
        in if bail then w
        else
        let dataSize = height * stride;
            (buffer, w) = NewDirectByteBuffer pf pixels dataSize w;
            w = (if buffer \<noteq> NULL \<and> g_onFrameMethod g \<noteq> NULL
                 then CallVoidMethod (g_renderSurface g) (g_onFrameMethod g)
                        [APtr buffer, AInt width, AInt height, AInt stride] w
                 else w);
            w = (if buffer \<noteq> NULL then DeleteLocalRef buffer w else w)
        in if attached \<noteq> 0 then DetachCurrentThread w else w)"

section \<open>jni-wrapper.c: the background bridge\<close>

text \<open>The worker's body. Its argument points at \<open>g_bridgeTestMode\<close>.\<close>

definition bridgeThreadFunc :: "platform \<Rightarrow> statics \<Rightarrow> world \<Rightarrow> ptr outcome \<times> world" where
  "bridgeThreadFunc pf g w =
     (let testMode = g_bridgeTestMode g in
      if g_socketDir g \<noteq> [] \<and> g_StartBridgeMsgpackUDSWithDir g \<noteq> NULL then
        let w = LOGI ''Bridge thread started, calling StartBridgeMsgpackUDSWithDir(%d, %s)''
                  [AInt testMode, AStr (g_socketDir g)] w;
            (res, w) = call_ptr pf (g_StartBridgeMsgpackUDSWithDir g)
                         [AInt testMode, AStr (g_socketDir g)] w
        in case res of
             Returns result \<Rightarrow>
               (Returns NULL, LOGI ''StartBridgeMsgpackUDSWithDir returned: %d'' [AInt result] w)
           | Blocks \<Rightarrow> (Blocks, w)
           | NullCall \<Rightarrow> (NullCall, w)
      else
        let w = LOGI ''Bridge thread started, calling StartBridgeMsgpackUDS(%d)'' [AInt testMode] w;
            (res, w) = call_ptr pf (g_StartBridgeMsgpackUDS g) [AInt testMode] w
        in case res of
             Returns result \<Rightarrow>
               (Returns NULL, LOGI ''StartBridgeMsgpackUDS returned: %d'' [AInt result] w)
           | Blocks \<Rightarrow> (Blocks, w)
           | NullCall \<Rightarrow> (NullCall, w))"

text \<open>
  \<open>socketDir\<close> is \<open>None\<close> for a null \<open>jstring\<close>. \<open>strncpy\<close> into the 512-byte static
  followed by the forced terminator keeps the first 511 bytes.
\<close>

definition startBridgeInBackground ::
  "platform \<Rightarrow> int32 \<Rightarrow> string option \<Rightarrow> statics \<Rightarrow> world
     \<Rightarrow> int32 outcome \<times> statics \<times> world" where
  "startBridgeInBackground pf testMode socketDir g w =
     (let (ok, g, w) = initFunctionPointers pf g w in
      if ok = 0 then (Returns (- 1), g, w)
      else
        let (g, w) =
              (case socketDir of
                 None \<Rightarrow> (g, w)
               | Some js \<Rightarrow>
                   (case utf_chars pf js of
                      None \<Rightarrow> (g, w)
                    | Some dir \<Rightarrow>
                        let g = g\<lparr>g_socketDir := take (512 - 1) dir\<rparr>
                        in (g, LOGI ''JNI: Socket directory set to: %s'' [AStr (g_socketDir g)] w)));
            g = g\<lparr>g_bridgeTestMode := testMode\<rparr>;
            w = LOGI ''JNI: Starting bridge in background thread (testMode=%d)'' [AInt testMode] w;
            (created, w) = pthread_create pf BridgeThreadFunc (bridgeThreadFunc pf g) w
        in case created of
             Returns result \<Rightarrow>
               if result \<noteq> 0 then
                 (Returns (- 2), g, LOGE ''Failed to create bridge thread: %d'' [AInt result] w)
               else
                 let w = usleep 500000 w
                 in (Returns 0, g, LOGI ''JNI: Bridge thread started successfully'' [] w)
           | Blocks \<Rightarrow> (Blocks, g, w)
           | NullCall \<Rightarrow> (NullCall, g, w))"

section \<open>jni-wrapper.c: the socket path\<close>

text \<open>\<open>printf\<close>'s \<open>%d\<close> for a C \<open>int\<close>.\<close>

fun dec :: "nat \<Rightarrow> string" where
  "dec n = (if n < 10 then [''0123456789'' ! n]
            else dec (n div 10) @ [''0123456789'' ! (n mod 10)])"

declare dec.simps [simp del]

definition fmt_d :: "int32 \<Rightarrow> string" where
  "fmt_d x = (if sint x < 0 then CHR ''-'' # dec (nat (- sint x)) else dec (nat (sint x)))"

text \<open>
  \<open>snprintf(buf, sz, fmt, ...)\<close> leaves in \<open>buf\<close> the first \<open>sz - 1\<close> bytes of the
  formatted text; the argument here is that text.
\<close>

definition snprintf :: "nat \<Rightarrow> string \<Rightarrow> string" where
  "snprintf sz formatted = take (sz - 1) formatted"

definition getBridgeSocketPath :: "platform \<Rightarrow> statics \<Rightarrow> world \<Rightarrow> string \<times> world" where
  "getBridgeSocketPath pf g w =
     (let socketDir = (if g_socketDir g \<noteq> [] then g_socketDir g else ''/data/local/tmp'');
          socketPath = snprintf 256 (socketDir @ ''/tsyne-'' @ fmt_d (getpid pf) @ ''.sock'');
          w = LOGI ''JNI: Socket path: %s'' [AStr socketPath] w
      in (socketPath, emit (JNewStringUTF socketPath) w))"

section \<open>jni-wrapper.c: embedded mode\<close>

text \<open>The embedded worker's body; \<open>halt\<close> is set where the entry point does not return.\<close>

definition embeddedBridgeThreadFunc :: "platform \<Rightarrow> statics \<Rightarrow> world \<Rightarrow> ptr outcome \<times> world" where
  "embeddedBridgeThreadFunc pf g w =
     (let w = LOGI ''Embedded bridge thread starting (%.0fx%.0f)''
                [AFloat (g_screenWidth g), AFloat (g_screenHeight g)] w;
          (bail, w) =
            (if g_javaVM g \<noteq> NULL then
               let (rc, w) = AttachCurrentThread pf w in
               if rc \<noteq> JNI_OK
               then (True, LOGE ''Failed to attach embedded bridge thread to JVM'' [] w)
               else (False, LOGI ''Embedded bridge thread attached to JVM'' [] w)
             else (True, LOGE ''JavaVM is NULL - cannot attach thread'' [] w))
      in if bail then (Returns NULL, w)
      else
        let w = (if g_SetAndroidRenderCallback g \<noteq> NULL
                 then LOGI ''Render callback registered'' []
                        (call_void (g_SetAndroidRenderCallback g) [AFunc ''nativeRenderCallback''] w)
                 else w);
            (halt, w) =
              (if g_StartBridgeAndroidEmbedded g \<noteq> NULL then
                 let (res, w) = call_ptr pf (g_StartBridgeAndroidEmbedded g)
                                  [AFloat (g_screenWidth g), AFloat (g_screenHeight g),
                                   AStr (g_socketDir g)] w
                 in case res of
                      Returns result \<Rightarrow>
                        (None, LOGI ''StartBridgeAndroidEmbedded returned: %d'' [AInt result] w)
                    | Blocks \<Rightarrow> (Some Blocks, w)
                    | NullCall \<Rightarrow> (Some NullCall, w)
               else (None, w))
        in case halt of
             Some out \<Rightarrow> (out, w)
           | None \<Rightarrow>
               (Returns NULL,
                if g_javaVM g \<noteq> NULL
                then LOGI ''Embedded bridge thread detached from JVM'' [] (DetachCurrentThread w)
                else w))"

definition startEmbeddedBridge ::
  "platform \<Rightarrow> jfloat \<Rightarrow> jfloat \<Rightarrow> string option \<Rightarrow> ptr \<Rightarrow> statics \<Rightarrow> world
     \<Rightarrow> int32 outcome \<times> statics \<times> world" where
  "startEmbeddedBridge pf width height socketDir renderTarget g w =
     (let (ok, g, w) = initFunctionPointers pf g w in
      if ok = 0 then (Returns (- 1), g, w)
      else if g_StartBridgeAndroidEmbedded g = NULL then
        (Returns (- 2), g, LOGE ''StartBridgeAndroidEmbedded not available'' [] w)
      else
        let g = g\<lparr>g_screenWidth := width, g_screenHeight := height\<rparr>;
            w = LOGI ''JNI: Screen size set to %.0fx%.0f'' [AFloat width, AFloat height] w;
            (g, w) =
              (case socketDir of
                 None \<Rightarrow> (g, w)
               | Some js \<Rightarrow>
                   (case utf_chars pf js of
                      None \<Rightarrow> (g, w)
                    | Some dir \<Rightarrow>
                        let g = g\<lparr>g_socketDir := take (512 - 1) dir\<rparr>
                        in (g, LOGI ''JNI: Socket directory set to: %s'' [AStr (g_socketDir g)] w)));
            (g, bail, w) =
              (if renderTarget \<noteq> NULL then
                 let (r, w) = NewGlobalRef pf renderTarget w;
                     g = g\<lparr>g_renderSurface := r\<rparr>;
                     targetClass = object_class pf renderTarget;
                     (m, w) = GetMethodID pf targetClass ''onFrame'' ''(Ljava/nio/ByteBuffer;III)V'' w;
                     g = g\<lparr>g_onFrameMethod := m\<rparr>
                 in if m = NULL then
                      let w = LOGE ''Failed to find onFrame method'' [] w;
                          w = DeleteGlobalRef (g_renderSurface g) w
                      in (g\<lparr>g_renderSurface := NULL\<rparr>, True, w)
                    else (g, False, LOGI ''JNI: Render target registered with onFrame method'' [] w)
               else (g, False, w))
        in if bail then (Returns (- 3), g, w)
        else
        let w = LOGI ''JNI: Starting embedded bridge in background thread'' [] w;
            (created, w) =
              pthread_create pf EmbeddedBridgeThreadFunc (embeddedBridgeThreadFunc pf g) w
        in case created of
             Returns result \<Rightarrow>
               if result \<noteq> 0 then
                 (Returns (- 4), g,
                  LOGE ''Failed to create embedded bridge thread: %d'' [AInt result] w)
               else
                 let w = usleep 500000 w
                 in (Returns 0, g, LOGI ''JNI: Embedded bridge thread started'' [] w)
           | Blocks \<Rightarrow> (Blocks, g, w)
           | NullCall \<Rightarrow> (NullCall, g, w))"

definition setScreenSize :: "jfloat \<Rightarrow> jfloat \<Rightarrow> statics \<Rightarrow> world \<Rightarrow> statics \<times> world" where
  "setScreenSize width height g w =
     (let g = g\<lparr>g_screenWidth := width, g_screenHeight := height\<rparr>
      in if g_SetAndroidScreenSize g \<noteq> NULL then
           let w = call_void (g_SetAndroidScreenSize g) [AFloat width, AFloat height] w
           in (g, LOGI ''JNI: Screen size updated to %.0fx%.0f'' [AFloat width, AFloat height] w)
         else (g, w))"

definition sendTouchDown :: "jfloat \<Rightarrow> jfloat \<Rightarrow> int32 \<Rightarrow> statics \<Rightarrow> world \<Rightarrow> world" where
  "sendTouchDown x y pointerId g w =
     (let w = LOGI ''sendTouchDown: x=%.0f y=%.0f id=%d func=%p''
                [AFloat x, AFloat y, AInt pointerId, APtr (g_SendAndroidTouchDown g)] w
      in if g_SendAndroidTouchDown g \<noteq> NULL
         then call_void (g_SendAndroidTouchDown g) [AFloat x, AFloat y, AInt pointerId] w
         else w)"

definition sendTouchMove :: "jfloat \<Rightarrow> jfloat \<Rightarrow> int32 \<Rightarrow> statics \<Rightarrow> world \<Rightarrow> world" where
  "sendTouchMove x y pointerId g w =
     (if g_SendAndroidTouchMove g \<noteq> NULL
      then call_void (g_SendAndroidTouchMove g) [AFloat x, AFloat y, AInt pointerId] w
      else w)"

definition sendTouchUp :: "jfloat \<Rightarrow> jfloat \<Rightarrow> int32 \<Rightarrow> statics \<Rightarrow> world \<Rightarrow> world" where
  "sendTouchUp x y pointerId g w =
     (if g_SendAndroidTouchUp g \<noteq> NULL
      then call_void (g_SendAndroidTouchUp g) [AFloat x, AFloat y, AInt pointerId] w
      else w)"

section \<open>node-runner.cpp\<close>

record node_statics =
  g_nodeHandle :: ptr
  g_nodeStart :: ptr
  g_scriptPath :: "string option"

definition node_statics0 :: node_statics where
  "node_statics0 = \<lparr>g_nodeHandle = NULL, g_nodeStart = NULL, g_scriptPath = None\<rparr>"

definition nodeThreadFunc ::
  "platform \<Rightarrow> string \<Rightarrow> node_statics \<Rightarrow> world \<Rightarrow> ptr outcome \<times> world" where
  "nodeThreadFunc pf scriptPath n w =
     (let w = LOGI ''Node.js thread started, running: %s'' [AStr scriptPath] w;
          (res, w) = call_ptr pf (g_nodeStart n) [AInt 2, AStr ''node'', AStr scriptPath] w
      in case res of
           Returns result \<Rightarrow> (Returns NULL, LOGI ''Node.js exited with code: %d'' [AInt result] w)
         | Blocks \<Rightarrow> (Blocks, w)
         | NullCall \<Rightarrow> (NullCall, w))"

definition initNode :: "platform \<Rightarrow> node_statics \<Rightarrow> world \<Rightarrow> int32 \<times> node_statics \<times> world" where
  "initNode pf n w =
     (if g_nodeStart n \<noteq> NULL then (1, n, w)
      else
        let (h, w) = dlopen pf ''libnode.so'' {RTLD_NOW, RTLD_NOLOAD} w;
            n = n\<lparr>g_nodeHandle := h\<rparr>
        in if h = NULL then
             (0, n, LOGE ''Failed to get handle for libnode.so: %s'' [AStr (dlerror pf)] w)
        else
        let w = LOGI ''Got handle to libnode.so'' [] w;
            (p, w) = dlsym pf h ''_ZN4node5StartEiPPc'' w;
            n = n\<lparr>g_nodeStart := p\<rparr>
        in if p = NULL then
             (0, n, LOGE ''Failed to find node::Start (_ZN4node5StartEiPPc): %s'' [AStr (dlerror pf)] w)
        else (1, n, LOGI ''Successfully loaded node::Start function'' [] w))"

definition startNode ::
  "platform \<Rightarrow> string \<Rightarrow> node_statics \<Rightarrow> world
     \<Rightarrow> int32 outcome \<times> node_statics \<times> world" where
  "startNode pf scriptPath n w =
     (let (ok, n, w) = initNode pf n w in
      if ok = 0 then (Returns (- 1), n, w)
      else
        case utf_chars pf scriptPath of
          None \<Rightarrow> (Returns (- 2), n, LOGE ''Failed to get script path string'' [] w)
        | Some path \<Rightarrow>
            let n = n\<lparr>g_scriptPath := Some path\<rparr>;
                w = LOGI ''Starting Node.js thread with script: %s'' [AStr path] w;
                (created, w) = pthread_create pf NodeThreadFunc (nodeThreadFunc pf path n) w
            in case created of
                 Returns result \<Rightarrow>
                   if result \<noteq> 0 then
                     (Returns (- 3), n\<lparr>g_scriptPath := None\<rparr>,
                      LOGE ''Failed to create Node.js thread: %d'' [AInt result] w)
                   else (Returns 0, n, LOGI ''Node.js thread created successfully'' [] w)
               | Blocks \<Rightarrow> (Blocks, n, w)
               | NullCall \<Rightarrow> (NullCall, n, w))"

section \<open>ffi\_callback.c\<close>

text \<open>\<open>callback\<close> is the untyped pointer Go hands over; a call through it is one event.\<close>

definition callEventCallback :: "ptr \<Rightarrow> string \<Rightarrow> world \<Rightarrow> world" where
  "callEventCallback callback eventJson w =
     (if callback \<noteq> NULL then call_void callback [AStr eventJson] w else w)"

section \<open>Reading a trace\<close>

fun is_Call :: "event \<Rightarrow> bool" where
  "is_Call (Call f args) = True"
| "is_Call e = False"

text \<open>The calls through function pointers that a trace holds.\<close>

definition peer_calls :: "event list \<Rightarrow> event list" where
  "peer_calls tr = filter is_Call tr"

text \<open>Whether an event, if it asks the linker for a library, asks with \<open>RTLD_NOLOAD\<close>.\<close>

fun requests_noload :: "event \<Rightarrow> bool" where
  "requests_noload (Dlopen name flags) = (RTLD_NOLOAD \<in> flags)"
| "requests_noload e = True"

text \<open>The events a step added: those of \<open>w'\<close> after the ones \<open>w\<close> already had.\<close>

definition since :: "world \<Rightarrow> world \<Rightarrow> event list" where
  "since w w' = drop (length (trace w)) (trace w')"

section \<open>Concrete processes\<close>

text \<open>
  \<open>phone\<close> is a platform whose bridge library exports its three mandatory entry points
  and none of the optional ones, and whose node library exports \<open>node::Start\<close>; every
  peer entry point returns 7, threads can be created and attached, and no class has an
  \<open>onFrame\<close> method. In \<open>boot\<close> both libraries are resident, in \<open>cold\<close> neither is.
\<close>

definition bridge_exports :: "(string \<times> ptr) list" where
  "bridge_exports =
     [(''TsyneInit'', 1001), (''StartBridgeMsgpackUDS'', 1002), (''StartBridgeGrpc'', 1003)]"

definition lookup_export :: "(string \<times> ptr) list \<Rightarrow> string \<Rightarrow> ptr" where
  "lookup_export tab name = (case map_of tab name of None \<Rightarrow> NULL | Some p \<Rightarrow> p)"

definition phone :: platform where
  "phone =
     \<lparr>loadable = (\<lambda>name. if name = ''libtsyne-bridge.so'' then 100
                          else if name = ''libnode.so'' then 200 else NULL),
      symtab = (\<lambda>h name. if h = 100 then lookup_export bridge_exports name
                          else if h = 200 then lookup_export [(''_ZN4node5StartEiPPc'', 2001)] name
                          else NULL),
      dlerror = ''undefined symbol'',
      peer_ret = (\<lambda>f args. Some 7),
      getpid = 4242,
      pthread_create_ret = 0,
      attach_ret = 0,
      utf_chars = Some,
      global_ref = (\<lambda>obj. obj + 1),
      object_class = (\<lambda>obj. 50),
      method_id = (\<lambda>cls name sig. NULL),
      direct_buffer = (\<lambda>address capacity. 60)\<rparr>"

definition boot :: world where
  "boot =
     \<lparr>resident = (\<lambda>name. if name = ''libtsyne-bridge.so'' then 100
                          else if name = ''libnode.so'' then 200 else NULL),
      thread_attached = False, clock = 0, trace = []\<rparr>"

definition cold :: world where
  "cold = \<lparr>resident = (\<lambda>name. NULL), thread_attached = False, clock = 0, trace = []\<rparr>"

text \<open>The statics and the trace that resolving on \<open>phone\<close> from \<open>boot\<close> leaves.\<close>

definition phone_statics :: statics where
  "phone_statics =
     statics0\<lparr>g_bridgeHandle := 100, g_TsyneInit := 1001, g_StartBridgeMsgpackUDS := 1002,
              g_StartBridgeGrpc := 1003\<rparr>"

definition phone_init_trace :: "event list" where
  "phone_init_trace =
     [Dlopen ''libtsyne-bridge.so'' {RTLD_NOW, RTLD_NOLOAD},
      Log ANDROID_LOG_INFO ''Got handle to libtsyne-bridge.so'' [],
      Dlsym 100 ''TsyneInit'',
      Dlsym 100 ''StartBridgeMsgpackUDS'',
      Dlsym 100 ''StartBridgeMsgpackUDSWithDir'',
      Dlsym 100 ''StartBridgeGrpc'',
      Dlsym 100 ''StartBridgeAndroidEmbedded'',
      Dlsym 100 ''SetAndroidRenderCallback'',
      Dlsym 100 ''SetAndroidScreenSize'',
      Dlsym 100 ''SendAndroidTouchDown'',
      Dlsym 100 ''SendAndroidTouchMove'',
      Dlsym 100 ''SendAndroidTouchUp'',
      Log ANDROID_LOG_INFO ''Successfully loaded all function pointers from tsyne-bridge'' []]"

definition phone_node_statics :: node_statics where
  "phone_node_statics = \<lparr>g_nodeHandle = 200, g_nodeStart = 2001, g_scriptPath = None\<rparr>"

definition phone_node_trace :: "event list" where
  "phone_node_trace =
     [Dlopen ''libnode.so'' {RTLD_NOW, RTLD_NOLOAD},
      Log ANDROID_LOG_INFO ''Got handle to libnode.so'' [],
      Dlsym 200 ''_ZN4node5StartEiPPc'',
      Log ANDROID_LOG_INFO ''Successfully loaded node::Start function'' []]"

text \<open>
  \<open>tablet\<close> is \<open>phone\<close> with a bridge library that also exports
  \<open>StartBridgeAndroidEmbedded\<close>, and with one class, that of object 22, that has the
  \<open>onFrame\<close> method. \<open>tablet_statics\<close> and \<open>tablet_init_trace\<close> are what resolving on it
  from \<open>boot\<close> leaves, \<open>tablet_registered\<close> the statics once object 22 is registered.
\<close>

definition tablet :: platform where
  "tablet =
     phone\<lparr>symtab := (\<lambda>h name. if h = 100
                 then lookup_export (bridge_exports @ [(''StartBridgeAndroidEmbedded'', 1004)]) name
                 else NULL),
           object_class := (\<lambda>obj. if obj = 22 then 51 else 50),
           method_id := (\<lambda>cls name sig.
                 if cls = 51 \<and> name = ''onFrame'' \<and> sig = ''(Ljava/nio/ByteBuffer;III)V''
                 then 30 else NULL)\<rparr>"

definition tablet_statics :: statics where
  "tablet_statics =
     statics0\<lparr>g_bridgeHandle := 100, g_TsyneInit := 1001, g_StartBridgeMsgpackUDS := 1002,
              g_StartBridgeGrpc := 1003, g_StartBridgeAndroidEmbedded := 1004\<rparr>"

definition tablet_init_trace :: "event list" where
  "tablet_init_trace =
     [Dlopen ''libtsyne-bridge.so'' {RTLD_NOW, RTLD_NOLOAD},
      Log ANDROID_LOG_INFO ''Got handle to libtsyne-bridge.so'' [],
      Dlsym 100 ''TsyneInit'',
      Dlsym 100 ''StartBridgeMsgpackUDS'',
      Dlsym 100 ''StartBridgeMsgpackUDSWithDir'',
      Dlsym 100 ''StartBridgeGrpc'',
      Dlsym 100 ''StartBridgeAndroidEmbedded'',
      Log ANDROID_LOG_INFO ''Found StartBridgeAndroidEmbedded (embedded rendering support)'' [],
      Dlsym 100 ''SetAndroidRenderCallback'',
      Dlsym 100 ''SetAndroidScreenSize'',
      Dlsym 100 ''SendAndroidTouchDown'',
      Dlsym 100 ''SendAndroidTouchMove'',
      Dlsym 100 ''SendAndroidTouchUp'',
      Log ANDROID_LOG_INFO ''Successfully loaded all function pointers from tsyne-bridge'' []]"

definition tablet_registered :: statics where
  "tablet_registered =
     tablet_statics\<lparr>g_screenWidth := 1080, g_screenHeight := 1920,
                     g_renderSurface := 23, g_onFrameMethod := 30\<rparr>"

text \<open>
  \<open>half_bridge\<close> is \<open>phone\<close> with a bridge library that exports \<open>TsyneInit\<close> and nothing
  else; \<open>half_statics\<close> and \<open>half_trace\<close> are what a first resolution attempt on it
  leaves.
\<close>

definition half_bridge :: platform where
  "half_bridge =
     phone\<lparr>symtab := (\<lambda>h name. if h = 100 \<and> name = ''TsyneInit'' then 1001 else NULL)\<rparr>"

definition half_statics :: statics where
  "half_statics = statics0\<lparr>g_bridgeHandle := 100, g_TsyneInit := 1001\<rparr>"

definition half_trace :: "event list" where
  "half_trace =
     [Dlopen ''libtsyne-bridge.so'' {RTLD_NOW, RTLD_NOLOAD},
      Log ANDROID_LOG_INFO ''Got handle to libtsyne-bridge.so'' [],
      Dlsym 100 ''TsyneInit'',
      Dlsym 100 ''StartBridgeMsgpackUDS'',
      Log ANDROID_LOG_ERROR ''Failed to find StartBridgeMsgpackUDS: %s''
        [AStr ''undefined symbol'']]"

text \<open>
  The traces after \<open>startBridgeInBackground\<close> with test mode 0 and no directory: on
  \<open>half_bridge\<close> once the first resolution attempt has failed, and on \<open>phone\<close> from
  \<open>boot\<close>.
\<close>

definition half_start_trace :: "event list" where
  "half_start_trace =
     half_trace @
     [Log ANDROID_LOG_INFO ''JNI: Starting bridge in background thread (testMode=%d)'' [AInt 0],
      PthreadCreate BridgeThreadFunc,
      InThread BridgeThreadFunc
        (Log ANDROID_LOG_INFO ''Bridge thread started, calling StartBridgeMsgpackUDS(%d)''
           [AInt 0])]"

definition phone_start_trace :: "event list" where
  "phone_start_trace =
     phone_init_trace @
     [Log ANDROID_LOG_INFO ''JNI: Starting bridge in background thread (testMode=%d)'' [AInt 0],
      PthreadCreate BridgeThreadFunc,
      InThread BridgeThreadFunc
        (Log ANDROID_LOG_INFO ''Bridge thread started, calling StartBridgeMsgpackUDS(%d)''
           [AInt 0]),
      InThread BridgeThreadFunc (Call 1002 [AInt 0]),
      InThread BridgeThreadFunc
        (Log ANDROID_LOG_INFO ''StartBridgeMsgpackUDS returned: %d'' [AInt 7]),
      Usleep 500000,
      Log ANDROID_LOG_INFO ''JNI: Bridge thread started successfully'' []]"

text \<open>Statics with a VM captured and a render target registered; a long directory name.\<close>

definition registered :: statics where
  "registered = statics0\<lparr>g_javaVM := 10, g_renderSurface := 20, g_onFrameMethod := 30\<rparr>"

definition long_dir :: string where
  "long_dir = replicate 250 (CHR ''a'')"

section \<open>Facts about the platform steps\<close>

lemma since_emit [simp]:
  "since w (w\<lparr>trace := trace w @ evs\<rparr>) = evs"
  by (simp add: since_def)

lemma dlopen_noload:
  "dlopen pf name {RTLD_NOW, RTLD_NOLOAD} w =
     (resident w name, emit (Dlopen name {RTLD_NOW, RTLD_NOLOAD}) w)"
  by (simp add: dlopen_def Let_def)

text \<open>Without \<open>RTLD_NOLOAD\<close> the same request would map the library into the process.\<close>

lemma dlopen_loads:
  "resident w name = NULL \<Longrightarrow> RTLD_NOLOAD \<notin> flags \<Longrightarrow>
     fst (dlopen pf name flags w) = loadable pf name \<and>
     resident (snd (dlopen pf name flags w)) name = loadable pf name"
  by (simp add: dlopen_def Let_def emit_def)

lemmas run_defs = dlopen_noload dlsym_def LOGI_def LOGE_def emit_def Let_def

section \<open>Facts about resolving the bridge library\<close>

lemma initFunctionPointers_cached:
  "g_TsyneInit g \<noteq> NULL \<Longrightarrow> initFunctionPointers pf g w = (1, g, w)"
  by (simp add: initFunctionPointers_def)

text \<open>Resolving only appends to the trace, and what it appends enters no peer code.\<close>

lemma initFunctionPointers_frame_case:
  "case initFunctionPointers pf g w of (ok, g', w') \<Rightarrow>
     w' = w\<lparr>trace := trace w @ since w w'\<rparr> \<and> peer_calls (since w w') = [] \<and>
     list_all requests_noload (since w w')"
  by (simp add: initFunctionPointers_def run_defs peer_calls_def since_def)

lemma initFunctionPointers_frame:
  "initFunctionPointers pf g w = (ok, g', w') \<Longrightarrow>
     w' = w\<lparr>trace := trace w @ since w w'\<rparr> \<and> peer_calls (since w w') = [] \<and>
     list_all requests_noload (since w w')"
  using initFunctionPointers_frame_case [where pf = pf and g = g and w = w] by simp

lemma initFunctionPointers_fresh_ok_iff:
  "g_TsyneInit g = NULL \<Longrightarrow>
     (fst (initFunctionPointers pf g w) \<noteq> 0) =
     (resident w ''libtsyne-bridge.so'' \<noteq> NULL \<and>
      symtab pf (resident w ''libtsyne-bridge.so'') ''TsyneInit'' \<noteq> NULL \<and>
      symtab pf (resident w ''libtsyne-bridge.so'') ''StartBridgeMsgpackUDS'' \<noteq> NULL \<and>
      symtab pf (resident w ''libtsyne-bridge.so'') ''StartBridgeGrpc'' \<noteq> NULL)"
  by (simp add: initFunctionPointers_def run_defs)

text \<open>After a successful first resolution each static holds the address of its symbol.\<close>

lemma initFunctionPointers_pointers_case:
  "case initFunctionPointers pf g w of (ok, g', w') \<Rightarrow>
     g_TsyneInit g = NULL \<longrightarrow> ok \<noteq> 0 \<longrightarrow>
     g_bridgeHandle g' = resident w ''libtsyne-bridge.so'' \<and>
     g_TsyneInit g' = symtab pf (resident w ''libtsyne-bridge.so'') ''TsyneInit'' \<and>
     g_StartBridgeMsgpackUDS g' =
       symtab pf (resident w ''libtsyne-bridge.so'') ''StartBridgeMsgpackUDS'' \<and>
     g_StartBridgeMsgpackUDSWithDir g' =
       symtab pf (resident w ''libtsyne-bridge.so'') ''StartBridgeMsgpackUDSWithDir'' \<and>
     g_StartBridgeGrpc g' = symtab pf (resident w ''libtsyne-bridge.so'') ''StartBridgeGrpc'' \<and>
     g_StartBridgeAndroidEmbedded g' =
       symtab pf (resident w ''libtsyne-bridge.so'') ''StartBridgeAndroidEmbedded'' \<and>
     g_SetAndroidRenderCallback g' =
       symtab pf (resident w ''libtsyne-bridge.so'') ''SetAndroidRenderCallback'' \<and>
     g_SetAndroidScreenSize g' =
       symtab pf (resident w ''libtsyne-bridge.so'') ''SetAndroidScreenSize'' \<and>
     g_SendAndroidTouchDown g' =
       symtab pf (resident w ''libtsyne-bridge.so'') ''SendAndroidTouchDown'' \<and>
     g_SendAndroidTouchMove g' =
       symtab pf (resident w ''libtsyne-bridge.so'') ''SendAndroidTouchMove'' \<and>
     g_SendAndroidTouchUp g' =
       symtab pf (resident w ''libtsyne-bridge.so'') ''SendAndroidTouchUp'' \<and>
     g_TsyneInit g' \<noteq> NULL \<and> g_StartBridgeMsgpackUDS g' \<noteq> NULL \<and>
     g_StartBridgeGrpc g' \<noteq> NULL"
  by (simp add: initFunctionPointers_def run_defs)

lemma initFunctionPointers_pointers:
  "g_TsyneInit g = NULL \<Longrightarrow> initFunctionPointers pf g w = (ok, g', w') \<Longrightarrow> ok \<noteq> 0 \<Longrightarrow>
     g_bridgeHandle g' = resident w ''libtsyne-bridge.so'' \<and>
     g_TsyneInit g' = symtab pf (resident w ''libtsyne-bridge.so'') ''TsyneInit'' \<and>
     g_StartBridgeMsgpackUDS g' =
       symtab pf (resident w ''libtsyne-bridge.so'') ''StartBridgeMsgpackUDS'' \<and>
     g_StartBridgeMsgpackUDSWithDir g' =
       symtab pf (resident w ''libtsyne-bridge.so'') ''StartBridgeMsgpackUDSWithDir'' \<and>
     g_StartBridgeGrpc g' = symtab pf (resident w ''libtsyne-bridge.so'') ''StartBridgeGrpc'' \<and>
     g_StartBridgeAndroidEmbedded g' =
       symtab pf (resident w ''libtsyne-bridge.so'') ''StartBridgeAndroidEmbedded'' \<and>
     g_SetAndroidRenderCallback g' =
       symtab pf (resident w ''libtsyne-bridge.so'') ''SetAndroidRenderCallback'' \<and>
     g_SetAndroidScreenSize g' =
       symtab pf (resident w ''libtsyne-bridge.so'') ''SetAndroidScreenSize'' \<and>
     g_SendAndroidTouchDown g' =
       symtab pf (resident w ''libtsyne-bridge.so'') ''SendAndroidTouchDown'' \<and>
     g_SendAndroidTouchMove g' =
       symtab pf (resident w ''libtsyne-bridge.so'') ''SendAndroidTouchMove'' \<and>
     g_SendAndroidTouchUp g' =
       symtab pf (resident w ''libtsyne-bridge.so'') ''SendAndroidTouchUp'' \<and>
     g_TsyneInit g' \<noteq> NULL \<and> g_StartBridgeMsgpackUDS g' \<noteq> NULL \<and>
     g_StartBridgeGrpc g' \<noteq> NULL"
  using initFunctionPointers_pointers_case [where pf = pf and g = g and w = w] by simp

text \<open>Resolving leaves every other static alone, and answers 0 or 1.\<close>

lemma initFunctionPointers_other_statics_case:
  "case initFunctionPointers pf g w of (ok, g', w') \<Rightarrow>
     g_socketDir g' = g_socketDir g \<and> g_javaVM g' = g_javaVM g \<and>
     g_renderSurface g' = g_renderSurface g \<and> g_onFrameMethod g' = g_onFrameMethod g \<and>
     g_screenWidth g' = g_screenWidth g \<and> g_screenHeight g' = g_screenHeight g \<and>
     g_bridgeTestMode g' = g_bridgeTestMode g \<and> (ok = 0 \<or> ok = 1) \<and>
     (ok \<noteq> 0 \<longrightarrow> g_TsyneInit g' \<noteq> NULL)"
  by (simp add: initFunctionPointers_def run_defs)

lemma initFunctionPointers_other_statics:
  "initFunctionPointers pf g w = (ok, g', w') \<Longrightarrow>
     g_socketDir g' = g_socketDir g \<and> g_javaVM g' = g_javaVM g \<and>
     g_renderSurface g' = g_renderSurface g \<and> g_onFrameMethod g' = g_onFrameMethod g \<and>
     g_screenWidth g' = g_screenWidth g \<and> g_screenHeight g' = g_screenHeight g \<and>
     g_bridgeTestMode g' = g_bridgeTestMode g \<and> (ok = 0 \<or> ok = 1) \<and>
     (ok \<noteq> 0 \<longrightarrow> g_TsyneInit g' \<noteq> NULL)"
  using initFunctionPointers_other_statics_case [where pf = pf and g = g and w = w] by simp

section \<open>Facts about resolving the node library\<close>

lemma initNode_cached:
  "g_nodeStart n \<noteq> NULL \<Longrightarrow> initNode pf n w = (1, n, w)"
  by (simp add: initNode_def)

lemma initNode_frame_case:
  "case initNode pf n w of (ok, n', w') \<Rightarrow>
     w' = w\<lparr>trace := trace w @ since w w'\<rparr> \<and> peer_calls (since w w') = [] \<and>
     list_all requests_noload (since w w') \<and> (ok = 0 \<or> ok = 1) \<and>
     (ok \<noteq> 0 \<longrightarrow> g_nodeStart n' \<noteq> NULL) \<and>
     (g_nodeStart n = NULL \<longrightarrow>
        (ok \<noteq> 0) = (resident w ''libnode.so'' \<noteq> NULL \<and>
                     symtab pf (resident w ''libnode.so'') ''_ZN4node5StartEiPPc'' \<noteq> NULL))"
  by (simp add: initNode_def run_defs peer_calls_def since_def)

lemma initNode_frame:
  "initNode pf n w = (ok, n', w') \<Longrightarrow>
     w' = w\<lparr>trace := trace w @ since w w'\<rparr> \<and> peer_calls (since w w') = [] \<and>
     list_all requests_noload (since w w') \<and> (ok = 0 \<or> ok = 1) \<and>
     (ok \<noteq> 0 \<longrightarrow> g_nodeStart n' \<noteq> NULL) \<and>
     (g_nodeStart n = NULL \<longrightarrow>
        (ok \<noteq> 0) = (resident w ''libnode.so'' \<noteq> NULL \<and>
                     symtab pf (resident w ''libnode.so'') ''_ZN4node5StartEiPPc'' \<noteq> NULL))"
  using initNode_frame_case [where pf = pf and n = n and w = w] by simp

section \<open>Facts about what resolving asks of the linker\<close>

lemma initFunctionPointers_noload_case:
  "case initFunctionPointers pf g w of (ok, g', w') \<Rightarrow>
     resident w' = resident w \<and>
     (g_TsyneInit g = NULL \<longrightarrow>
        (\<exists>rest. since w w' = Dlopen ''libtsyne-bridge.so'' {RTLD_NOW, RTLD_NOLOAD} # rest) \<and>
        (resident w ''libtsyne-bridge.so'' = NULL \<longrightarrow> ok = 0 \<and> g_bridgeHandle g' = NULL))"
  by (simp add: initFunctionPointers_def run_defs since_def)

lemma initNode_noload_case:
  "case initNode pf n w of (ok, n', w') \<Rightarrow>
     resident w' = resident w \<and>
     (g_nodeStart n = NULL \<longrightarrow>
        (\<exists>rest. since w w' = Dlopen ''libnode.so'' {RTLD_NOW, RTLD_NOLOAD} # rest) \<and>
        (resident w ''libnode.so'' = NULL \<longrightarrow> ok = 0 \<and> g_nodeHandle n' = NULL))"
  by (simp add: initNode_def run_defs since_def)

section \<open>Facts about decimal formatting\<close>

lemma length_dec: "0 < k \<Longrightarrow> n < 10 ^ k \<Longrightarrow> length (dec n) \<le> k"
proof (induction n arbitrary: k rule: dec.induct)
  case (1 n)
  show ?case
  proof (cases "n < 10")
    case True
    with "1.prems" show ?thesis
      by (simp add: dec.simps [of n])
  next
    case False
    with "1.prems" obtain j where k: "k = Suc j"
      by (cases k) auto
    have "0 < j"
      using False "1.prems" k by (cases j) auto
    moreover have "n div 10 < 10 ^ j"
      using "1.prems" k by (simp add: less_mult_imp_div_less)
    ultimately have "length (dec (n div 10)) \<le> j"
      using "1.IH" [OF False] by blast
    with False k show ?thesis
      by (simp add: dec.simps [of n])
  qed
qed

text \<open>A C \<open>int\<close> prints in at most eleven characters.\<close>

lemma length_fmt_d: "length (fmt_d x) \<le> 11"
proof -
  have lo: "- (2 ^ 31) \<le> sint x" and hi: "sint x < 2 ^ 31"
    using sint_ge [of x] sint_lt [of x] by simp_all
  show ?thesis
  proof (cases "sint x < 0")
    case True
    have "nat (- sint x) < 10 ^ 10"
      using lo by simp
    then have "length (dec (nat (- sint x))) \<le> 10"
      by (intro length_dec) simp_all
    with True show ?thesis
      by (simp add: fmt_d_def)
  next
    case False
    have "nat (sint x) < 10 ^ 10"
      using hi by simp
    then have "length (dec (nat (sint x))) \<le> 10"
      by (intro length_dec) simp_all
    with False show ?thesis
      by (simp add: fmt_d_def)
  qed
qed

lemma fmt_d_4242: "fmt_d 4242 = ''4242''"
  by (simp add: fmt_d_def dec.simps)

section \<open>Facts about the concrete processes\<close>

lemma phone_bridge_symbols:
  "resident boot ''libtsyne-bridge.so'' = 100"
  "symtab phone 100 ''TsyneInit'' = 1001"
  "symtab phone 100 ''StartBridgeMsgpackUDS'' = 1002"
  "symtab phone 100 ''StartBridgeGrpc'' = 1003"
  "symtab phone 100 ''StartBridgeMsgpackUDSWithDir'' = NULL"
  "symtab phone 100 ''StartBridgeAndroidEmbedded'' = NULL"
  "symtab phone 100 ''SetAndroidRenderCallback'' = NULL"
  "symtab phone 100 ''SetAndroidScreenSize'' = NULL"
  "symtab phone 100 ''SendAndroidTouchDown'' = NULL"
  "symtab phone 100 ''SendAndroidTouchMove'' = NULL"
  "symtab phone 100 ''SendAndroidTouchUp'' = NULL"
  by (simp_all add: phone_def boot_def lookup_export_def bridge_exports_def)

lemma phone_node_symbols:
  "resident boot ''libnode.so'' = 200"
  "symtab phone 200 ''_ZN4node5StartEiPPc'' = 2001"
  by (simp_all add: phone_def boot_def lookup_export_def)

lemma init_phone:
  "initFunctionPointers phone statics0 boot =
     (1, phone_statics, boot\<lparr>trace := phone_init_trace\<rparr>)"
proof -
  have "g_TsyneInit statics0 = NULL" "trace boot = []"
    by (simp_all add: statics0_def boot_def)
  then show ?thesis
    by (simp add: initFunctionPointers_def run_defs phone_bridge_symbols phone_statics_def
        phone_init_trace_def statics0_def)
qed

lemma initNode_phone:
  "initNode phone node_statics0 boot =
     (1, phone_node_statics, boot\<lparr>trace := phone_node_trace\<rparr>)"
proof -
  have "g_nodeStart node_statics0 = NULL" "trace boot = []"
    by (simp_all add: node_statics0_def boot_def)
  then show ?thesis
    by (simp add: initNode_def run_defs phone_node_symbols phone_node_statics_def
        phone_node_trace_def node_statics0_def)
qed

lemma tablet_symbols:
  "symtab tablet 100 ''TsyneInit'' = 1001"
  "symtab tablet 100 ''StartBridgeMsgpackUDS'' = 1002"
  "symtab tablet 100 ''StartBridgeGrpc'' = 1003"
  "symtab tablet 100 ''StartBridgeAndroidEmbedded'' = 1004"
  "symtab tablet 100 ''StartBridgeMsgpackUDSWithDir'' = NULL"
  "symtab tablet 100 ''SetAndroidRenderCallback'' = NULL"
  "symtab tablet 100 ''SetAndroidScreenSize'' = NULL"
  "symtab tablet 100 ''SendAndroidTouchDown'' = NULL"
  "symtab tablet 100 ''SendAndroidTouchMove'' = NULL"
  "symtab tablet 100 ''SendAndroidTouchUp'' = NULL"
  by (simp_all add: tablet_def lookup_export_def bridge_exports_def)

lemma tablet_jni:
  "object_class tablet 22 = 51" "object_class tablet 20 = 50"
  "method_id tablet 51 ''onFrame'' ''(Ljava/nio/ByteBuffer;III)V'' = 30"
  "method_id tablet 50 ''onFrame'' ''(Ljava/nio/ByteBuffer;III)V'' = NULL"
  "global_ref tablet obj = obj + 1" "pthread_create_ret tablet = 0"
  by (simp_all add: tablet_def phone_def)

lemma init_tablet:
  "initFunctionPointers tablet statics0 boot =
     (1, tablet_statics, boot\<lparr>trace := tablet_init_trace\<rparr>)"
proof -
  have "trace boot = []"
    by (simp add: boot_def)
  then show ?thesis
    by (simp add: initFunctionPointers_def run_defs phone_bridge_symbols tablet_symbols
        tablet_statics_def tablet_init_trace_def statics0_def)
qed

lemma half_bridge_symbols:
  "symtab half_bridge 100 ''TsyneInit'' = 1001"
  "symtab half_bridge 100 ''StartBridgeMsgpackUDS'' = NULL"
  "dlerror half_bridge = ''undefined symbol''"
  "peer_ret half_bridge f args = Some 7"
  by (simp_all add: half_bridge_def phone_def)

lemma init_half_bridge:
  "initFunctionPointers half_bridge statics0 boot =
     (0, half_statics, boot\<lparr>trace := half_trace\<rparr>)"
proof -
  have "trace boot = []"
    by (simp add: boot_def)
  then show ?thesis
    by (simp add: initFunctionPointers_def run_defs phone_bridge_symbols half_bridge_symbols
        half_statics_def half_trace_def statics0_def)
qed

lemma half_statics_fields:
  "g_TsyneInit half_statics = 1001" "g_StartBridgeMsgpackUDS half_statics = NULL"
  "g_socketDir half_statics = []" "g_StartBridgeMsgpackUDSWithDir half_statics = NULL"
  by (simp_all add: half_statics_def statics0_def)

lemma phone_statics_fields:
  "g_TsyneInit phone_statics = 1001" "g_StartBridgeMsgpackUDS phone_statics = 1002"
  "g_socketDir phone_statics = []" "g_StartBridgeMsgpackUDSWithDir phone_statics = NULL"
  by (simp_all add: phone_statics_def statics0_def)

section \<open>Resolution is cached\<close>

text \<open>
  C4. Once a call of the resolution routine has succeeded, every later call, whatever
  the platform and the world have become, returns success with the very statics the
  first call left (the cached handle and entry-point addresses) and leaves the world,
  and with it the effect trace, untouched: neither \<open>dlopen\<close> nor \<open>dlsym\<close> is invoked
  again. This holds for the bridge library (\<open>initFunctionPointers\<close>) and for the node
  library (\<open>initNode\<close>).
\<close>

theorem resolution_is_cached:
  "(initFunctionPointers pf g w = (ok, g', w') \<and> ok \<noteq> 0
      \<longrightarrow> initFunctionPointers pf2 g' w2 = (1, g', w2)) \<and>
   (initNode pf n w = (ok', n', w'') \<and> ok' \<noteq> 0
      \<longrightarrow> initNode pf2 n' w2 = (1, n', w2))"
  using initFunctionPointers_other_statics [of pf g w ok g' w']
    initFunctionPointers_cached [of g' pf2 w2]
    initNode_frame [of pf n w ok' n' w''] initNode_cached [of n' pf2 w2]
  by blast

theorem resolution_is_cached_witness:
  "initFunctionPointers phone statics0 boot =
     (1, phone_statics, boot\<lparr>trace := phone_init_trace\<rparr>) \<and>
   initFunctionPointers phone phone_statics boot = (1, phone_statics, boot) \<and>
   initNode phone node_statics0 boot =
     (1, phone_node_statics, boot\<lparr>trace := phone_node_trace\<rparr>) \<and>
   initNode phone phone_node_statics boot = (1, phone_node_statics, boot)"
  using resolution_is_cached [of phone statics0 boot 1 phone_statics
      "boot\<lparr>trace := phone_init_trace\<rparr>" phone boot node_statics0 1 phone_node_statics
      "boot\<lparr>trace := phone_node_trace\<rparr>"]
    init_phone initNode_phone
  by simp

section \<open>The event callback helper\<close>

text \<open>
  C10. For every event string, \<open>callEventCallback\<close> with a null callback pointer changes
  nothing at all, and with a non-null callback pointer its whole effect is one call
  through that pointer, with the event string as the only argument.
\<close>

theorem callEventCallback_null_or_once:
  "callEventCallback NULL eventJson w = w \<and>
   (callback \<noteq> NULL \<longrightarrow>
      callEventCallback callback eventJson w =
        w\<lparr>trace := trace w @ [Call callback [AStr eventJson]]\<rparr>)"
  by (simp add: callEventCallback_def call_void_def emit_def)

theorem callEventCallback_null_or_once_witness:
  "(9 :: ptr) \<noteq> NULL \<and>
   callEventCallback NULL ''tap'' boot = boot \<and>
   trace (callEventCallback 9 ''tap'' boot) = [Call 9 [AStr ''tap'']]"
  using callEventCallback_null_or_once [of "''tap''" boot 9]
  by (simp add: boot_def)

section \<open>The synchronous wrappers pass the peer's code through\<close>

text \<open>
  C9. Whenever the resolution a synchronous wrapper starts with succeeds, the wrapper
  hands back exactly what the entry point cached for it returns for the argument given,
  unchanged, and if that entry point never returns, neither does the wrapper. This is
  so for \<open>TsyneInit\<close>, and for \<open>StartBridgeMsgpackUDS\<close> and \<open>StartBridgeGrpc\<close> wherever
  their entry point is resolved (non-null). When the successful resolution is the one
  that does the lookups (nothing was cached before), the three cached entry points are
  the addresses the bridge library exports under these three names, and none is null.
\<close>

theorem sync_wrappers_pass_through:
  assumes init: "initFunctionPointers pf g w = (ok, g', w')" and ok: "ok \<noteq> 0"
  shows
    "fst (TsyneInit pf x g w) =
       (case peer_ret pf (g_TsyneInit g') [AInt x] of None \<Rightarrow> Blocks | Some r \<Rightarrow> Returns r) \<and>
     (g_StartBridgeMsgpackUDS g' \<noteq> NULL \<longrightarrow>
        fst (StartBridgeMsgpackUDS pf x g w) =
          (case peer_ret pf (g_StartBridgeMsgpackUDS g') [AInt x] of
             None \<Rightarrow> Blocks | Some r \<Rightarrow> Returns r)) \<and>
     (g_StartBridgeGrpc g' \<noteq> NULL \<longrightarrow>
        fst (StartBridgeGrpc pf x g w) =
          (case peer_ret pf (g_StartBridgeGrpc g') [AInt x] of
             None \<Rightarrow> Blocks | Some r \<Rightarrow> Returns r)) \<and>
     (g_TsyneInit g = NULL \<longrightarrow>
        g_TsyneInit g' = symtab pf (resident w ''libtsyne-bridge.so'') ''TsyneInit'' \<and>
        g_StartBridgeMsgpackUDS g' =
          symtab pf (resident w ''libtsyne-bridge.so'') ''StartBridgeMsgpackUDS'' \<and>
        g_StartBridgeGrpc g' = symtab pf (resident w ''libtsyne-bridge.so'') ''StartBridgeGrpc'' \<and>
        g_TsyneInit g' \<noteq> NULL \<and> g_StartBridgeMsgpackUDS g' \<noteq> NULL \<and>
        g_StartBridgeGrpc g' \<noteq> NULL)"
proof -
  have t: "g_TsyneInit g' \<noteq> NULL"
    using initFunctionPointers_other_statics [OF init] ok by blast
  have a: "fst (TsyneInit pf x g w) =
       (case peer_ret pf (g_TsyneInit g') [AInt x] of None \<Rightarrow> Blocks | Some r \<Rightarrow> Returns r)"
    using t ok by (simp add: TsyneInit_def init call_ptr_def LOGI_def split: option.split)
  have b: "fst (StartBridgeMsgpackUDS pf x g w) =
          (case peer_ret pf (g_StartBridgeMsgpackUDS g') [AInt x] of
             None \<Rightarrow> Blocks | Some r \<Rightarrow> Returns r)" if "g_StartBridgeMsgpackUDS g' \<noteq> NULL"
    using that ok
    by (simp add: StartBridgeMsgpackUDS_def init call_ptr_def LOGI_def split: option.split)
  have c: "fst (StartBridgeGrpc pf x g w) =
          (case peer_ret pf (g_StartBridgeGrpc g') [AInt x] of
             None \<Rightarrow> Blocks | Some r \<Rightarrow> Returns r)" if "g_StartBridgeGrpc g' \<noteq> NULL"
    using that ok by (simp add: StartBridgeGrpc_def init call_ptr_def LOGI_def split: option.split)
  have d: "g_TsyneInit g' = symtab pf (resident w ''libtsyne-bridge.so'') ''TsyneInit'' \<and>
        g_StartBridgeMsgpackUDS g' =
          symtab pf (resident w ''libtsyne-bridge.so'') ''StartBridgeMsgpackUDS'' \<and>
        g_StartBridgeGrpc g' = symtab pf (resident w ''libtsyne-bridge.so'') ''StartBridgeGrpc'' \<and>
        g_TsyneInit g' \<noteq> NULL \<and> g_StartBridgeMsgpackUDS g' \<noteq> NULL \<and>
        g_StartBridgeGrpc g' \<noteq> NULL" if "g_TsyneInit g = NULL"
    using initFunctionPointers_pointers [OF that init ok] by blast
  from a b c d show ?thesis by blast
qed

theorem sync_wrappers_pass_through_witness:
  "initFunctionPointers phone statics0 boot =
     (1, phone_statics, boot\<lparr>trace := phone_init_trace\<rparr>) \<and>
   g_TsyneInit statics0 = NULL \<and>
   g_StartBridgeMsgpackUDS phone_statics \<noteq> NULL \<and> g_StartBridgeGrpc phone_statics \<noteq> NULL \<and>
   peer_ret phone 1001 [AInt 5] = Some 7 \<and>
   fst (TsyneInit phone 5 statics0 boot) = Returns 7 \<and>
   fst (StartBridgeMsgpackUDS phone 5 statics0 boot) = Returns 7 \<and>
   fst (StartBridgeGrpc phone 5 statics0 boot) = Returns 7"
proof -
  have fresh: "g_TsyneInit statics0 = NULL"
    by (simp add: statics0_def)
  have ret: "peer_ret phone f args = Some 7" for f args
    by (simp add: phone_def)
  have one: "(1 :: int32) \<noteq> 0"
    by simp
  show ?thesis
    using sync_wrappers_pass_through [OF init_phone one, of 5] fresh init_phone
    by (simp add: ret)
qed

section \<open>Optional entry points\<close>

text \<open>
  C6. When resolution runs (nothing cached yet), it succeeds exactly when the bridge
  library is resident and exports the three mandatory entry points: whether any of the
  seven optional entry points (\<open>StartBridgeMsgpackUDSWithDir\<close>,
  \<open>StartBridgeAndroidEmbedded\<close>, \<open>SetAndroidRenderCallback\<close>, \<open>SetAndroidScreenSize\<close>,
  \<open>SendAndroidTouchDown\<close>, \<open>SendAndroidTouchMove\<close>, \<open>SendAndroidTouchUp\<close>) is exported
  plays no part. After a successful resolution, an operation whose only entry point is
  absent from the library does nothing to the peer: \<open>setScreenSize\<close>, \<open>sendTouchMove\<close>
  and \<open>sendTouchUp\<close> leave the world as it was, and \<open>sendTouchDown\<close> makes no call
  through a function pointer (it only writes its log line).
\<close>

theorem optional_entry_points_degrade:
  assumes fresh: "g_TsyneInit g = NULL"
    and init: "initFunctionPointers pf g w = (ok, g', w')"
  shows
    "(ok \<noteq> 0) =
       (resident w ''libtsyne-bridge.so'' \<noteq> NULL \<and>
        symtab pf (resident w ''libtsyne-bridge.so'') ''TsyneInit'' \<noteq> NULL \<and>
        symtab pf (resident w ''libtsyne-bridge.so'') ''StartBridgeMsgpackUDS'' \<noteq> NULL \<and>
        symtab pf (resident w ''libtsyne-bridge.so'') ''StartBridgeGrpc'' \<noteq> NULL) \<and>
     (ok \<noteq> 0 \<longrightarrow>
        (symtab pf (resident w ''libtsyne-bridge.so'') ''SetAndroidScreenSize'' = NULL \<longrightarrow>
           snd (setScreenSize width height g' w2) = w2) \<and>
        (symtab pf (resident w ''libtsyne-bridge.so'') ''SendAndroidTouchDown'' = NULL \<longrightarrow>
           peer_calls (since w2 (sendTouchDown x y pointerId g' w2)) = []) \<and>
        (symtab pf (resident w ''libtsyne-bridge.so'') ''SendAndroidTouchMove'' = NULL \<longrightarrow>
           sendTouchMove x y pointerId g' w2 = w2) \<and>
        (symtab pf (resident w ''libtsyne-bridge.so'') ''SendAndroidTouchUp'' = NULL \<longrightarrow>
           sendTouchUp x y pointerId g' w2 = w2))"
proof -
  have iff: "(ok \<noteq> 0) =
       (resident w ''libtsyne-bridge.so'' \<noteq> NULL \<and>
        symtab pf (resident w ''libtsyne-bridge.so'') ''TsyneInit'' \<noteq> NULL \<and>
        symtab pf (resident w ''libtsyne-bridge.so'') ''StartBridgeMsgpackUDS'' \<noteq> NULL \<and>
        symtab pf (resident w ''libtsyne-bridge.so'') ''StartBridgeGrpc'' \<noteq> NULL)"
    using initFunctionPointers_fresh_ok_iff [OF fresh, of pf w] init by simp
  have ops: "(symtab pf (resident w ''libtsyne-bridge.so'') ''SetAndroidScreenSize'' = NULL \<longrightarrow>
           snd (setScreenSize width height g' w2) = w2) \<and>
        (symtab pf (resident w ''libtsyne-bridge.so'') ''SendAndroidTouchDown'' = NULL \<longrightarrow>
           peer_calls (since w2 (sendTouchDown x y pointerId g' w2)) = []) \<and>
        (symtab pf (resident w ''libtsyne-bridge.so'') ''SendAndroidTouchMove'' = NULL \<longrightarrow>
           sendTouchMove x y pointerId g' w2 = w2) \<and>
        (symtab pf (resident w ''libtsyne-bridge.so'') ''SendAndroidTouchUp'' = NULL \<longrightarrow>
           sendTouchUp x y pointerId g' w2 = w2)" if ok: "ok \<noteq> 0"
    using initFunctionPointers_pointers [OF fresh init ok]
    by (simp add: setScreenSize_def sendTouchDown_def sendTouchMove_def sendTouchUp_def
        LOGI_def emit_def since_def peer_calls_def)
  from iff ops show ?thesis by blast
qed

theorem optional_entry_points_degrade_witness:
  "g_TsyneInit statics0 = NULL \<and>
   initFunctionPointers phone statics0 boot =
     (1, phone_statics, boot\<lparr>trace := phone_init_trace\<rparr>) \<and>
   symtab phone (resident boot ''libtsyne-bridge.so'') ''SetAndroidScreenSize'' = NULL \<and>
   symtab phone (resident boot ''libtsyne-bridge.so'') ''SendAndroidTouchDown'' = NULL \<and>
   symtab phone (resident boot ''libtsyne-bridge.so'') ''SendAndroidTouchMove'' = NULL \<and>
   symtab phone (resident boot ''libtsyne-bridge.so'') ''SendAndroidTouchUp'' = NULL \<and>
   snd (setScreenSize 1080 1920 phone_statics boot) = boot \<and>
   peer_calls (since boot (sendTouchDown 10 20 0 phone_statics boot)) = [] \<and>
   sendTouchMove 10 20 0 phone_statics boot = boot \<and>
   sendTouchUp 10 20 0 phone_statics boot = boot"
proof -
  have fresh: "g_TsyneInit statics0 = NULL"
    by (simp add: statics0_def)
  show ?thesis
    using optional_entry_points_degrade [OF fresh init_phone, of 1080 1920 boot 10 20 0]
      fresh init_phone
    by (simp add: phone_bridge_symbols)
qed

section \<open>Starting the bridge in the background\<close>

lemma peer_calls_InThread [simp]: "peer_calls (map (InThread fn) evs) = []"
  by (induction evs) (simp_all add: peer_calls_def)

lemma peer_calls_append [simp]: "peer_calls (xs @ ys) = peer_calls xs @ peer_calls ys"
  by (simp add: peer_calls_def)

text \<open>
  The worker's body, case by case: it logs, enters the entry point it has chosen, and,
  if that returns, logs the code and returns NULL; the code goes nowhere else.
\<close>

lemma bridgeThreadFunc_plain:
  assumes "g_socketDir g = [] \<or> g_StartBridgeMsgpackUDSWithDir g = NULL"
    and "g_StartBridgeMsgpackUDS g \<noteq> NULL"
  shows "bridgeThreadFunc pf g w =
     (case peer_ret pf (g_StartBridgeMsgpackUDS g) [AInt (g_bridgeTestMode g)] of
        None \<Rightarrow>
          (Blocks,
           w\<lparr>trace := trace w @
              [Log ANDROID_LOG_INFO ''Bridge thread started, calling StartBridgeMsgpackUDS(%d)''
                 [AInt (g_bridgeTestMode g)],
               Call (g_StartBridgeMsgpackUDS g) [AInt (g_bridgeTestMode g)]]\<rparr>)
      | Some result \<Rightarrow>
          (Returns NULL,
           w\<lparr>trace := trace w @
              [Log ANDROID_LOG_INFO ''Bridge thread started, calling StartBridgeMsgpackUDS(%d)''
                 [AInt (g_bridgeTestMode g)],
               Call (g_StartBridgeMsgpackUDS g) [AInt (g_bridgeTestMode g)],
               Log ANDROID_LOG_INFO ''StartBridgeMsgpackUDS returned: %d'' [AInt result]]\<rparr>))"
  using assms
  by (auto simp: bridgeThreadFunc_def call_ptr_def LOGI_def emit_def Let_def split: option.split)

lemma bridgeThreadFunc_with_dir:
  assumes "g_socketDir g \<noteq> []" and "g_StartBridgeMsgpackUDSWithDir g \<noteq> NULL"
  shows "bridgeThreadFunc pf g w =
     (case peer_ret pf (g_StartBridgeMsgpackUDSWithDir g)
             [AInt (g_bridgeTestMode g), AStr (g_socketDir g)] of
        None \<Rightarrow>
          (Blocks,
           w\<lparr>trace := trace w @
              [Log ANDROID_LOG_INFO
                 ''Bridge thread started, calling StartBridgeMsgpackUDSWithDir(%d, %s)''
                 [AInt (g_bridgeTestMode g), AStr (g_socketDir g)],
               Call (g_StartBridgeMsgpackUDSWithDir g)
                 [AInt (g_bridgeTestMode g), AStr (g_socketDir g)]]\<rparr>)
      | Some result \<Rightarrow>
          (Returns NULL,
           w\<lparr>trace := trace w @
              [Log ANDROID_LOG_INFO
                 ''Bridge thread started, calling StartBridgeMsgpackUDSWithDir(%d, %s)''
                 [AInt (g_bridgeTestMode g), AStr (g_socketDir g)],
               Call (g_StartBridgeMsgpackUDSWithDir g)
                 [AInt (g_bridgeTestMode g), AStr (g_socketDir g)],
               Log ANDROID_LOG_INFO ''StartBridgeMsgpackUDSWithDir returned: %d''
                 [AInt result]]\<rparr>))"
  using assms
  by (auto simp: bridgeThreadFunc_def call_ptr_def LOGI_def emit_def Let_def split: option.split)

lemma bridgeThreadFunc_frame:
  "case bridgeThreadFunc pf g w of (out, w') \<Rightarrow>
     w' = w\<lparr>trace := trace w @ since w w'\<rparr> \<and>
     (out = NullCall) = ((g_socketDir g = [] \<or> g_StartBridgeMsgpackUDSWithDir g = NULL) \<and>
                         g_StartBridgeMsgpackUDS g = NULL) \<and>
     (\<forall>v. out = Returns v \<longrightarrow> v = NULL)"
  by (simp add: bridgeThreadFunc_def call_ptr_def LOGI_def emit_def Let_def since_def
      split: option.split)

lemma pthread_create_bridge:
  assumes created: "pthread_create_ret pf = 0"
  shows "\<exists>wevs. pthread_create pf BridgeThreadFunc (bridgeThreadFunc pf g) w =
     (if (g_socketDir g = [] \<or> g_StartBridgeMsgpackUDSWithDir g = NULL) \<and>
         g_StartBridgeMsgpackUDS g = NULL
      then NullCall else Returns 0,
      w\<lparr>trace := trace w @ PthreadCreate BridgeThreadFunc # map (InThread BridgeThreadFunc) wevs\<rparr>)"
proof -
  obtain out ww where
    run: "bridgeThreadFunc pf g (w\<lparr>thread_attached := False, trace := []\<rparr>) = (out, ww)"
    by (cases "bridgeThreadFunc pf g (w\<lparr>thread_attached := False, trace := []\<rparr>)")
  note fr = bridgeThreadFunc_frame
    [where pf = pf and g = g and w = "w\<lparr>thread_attached := False, trace := []\<rparr>"]
  have ww: "ww = w\<lparr>thread_attached := False, trace := trace ww\<rparr>"
    and null: "(out = NullCall) =
      ((g_socketDir g = [] \<or> g_StartBridgeMsgpackUDSWithDir g = NULL) \<and>
       g_StartBridgeMsgpackUDS g = NULL)"
    using fr by (simp_all add: run since_def)
  have res: "resident ww = resident w"
    by (subst ww) simp
  have "pthread_create pf BridgeThreadFunc (bridgeThreadFunc pf g) w =
     (if (g_socketDir g = [] \<or> g_StartBridgeMsgpackUDSWithDir g = NULL) \<and>
         g_StartBridgeMsgpackUDS g = NULL
      then NullCall else Returns 0,
      w\<lparr>trace := trace w @ PthreadCreate BridgeThreadFunc
                # map (InThread BridgeThreadFunc) (trace ww)\<rparr>)"
    using null by (cases out) (simp_all add: pthread_create_def created emit_def run res)
  then show ?thesis by blast
qed

text \<open>
  Whenever resolution succeeds and the worker thread is created, the call ends with the
  process exactly when the entry point the worker goes for is null. In every other case
  it returns 0, the calling thread's clock has advanced by at least the settle delay of
  500000 microseconds, the last things the call did are that sleep and its final log
  line, and the calling thread itself has entered no peer entry point.
\<close>

lemma startBridgeInBackground_outcome:
  assumes init: "initFunctionPointers pf g w = (ok, g1, w1)" and ok: "ok \<noteq> 0"
    and created: "pthread_create_ret pf = 0"
    and run: "startBridgeInBackground pf testMode socketDir g w = (r, g', w')"
  shows
    "(r = NullCall) =
       ((g_socketDir g' = [] \<or> g_StartBridgeMsgpackUDSWithDir g' = NULL) \<and>
        g_StartBridgeMsgpackUDS g' = NULL) \<and>
     (r \<noteq> NullCall \<longrightarrow>
        r = Returns 0 \<and> clock w + 500000 \<le> clock w' \<and>
        (\<exists>pre. since w w' =
           pre @ [Usleep 500000,
                  Log ANDROID_LOG_INFO ''JNI: Bridge thread started successfully'' []]) \<and>
        peer_calls (since w w') = [])"
proof -
  obtain evs where w1: "w1 = w\<lparr>trace := trace w @ evs\<rparr>" and quiet: "peer_calls evs = []"
    using initFunctionPointers_frame [OF init] by (metis since_emit)
  define g2 where "g2 =
    (case socketDir of None \<Rightarrow> g1
     | Some js \<Rightarrow> (case utf_chars pf js of None \<Rightarrow> g1
                   | Some dir \<Rightarrow> g1\<lparr>g_socketDir := take (512 - 1) dir\<rparr>))
    \<lparr>g_bridgeTestMode := testMode\<rparr>"
  define w2 where "w2 =
    LOGI ''JNI: Starting bridge in background thread (testMode=%d)'' [AInt testMode]
      (case socketDir of None \<Rightarrow> w1
       | Some js \<Rightarrow> (case utf_chars pf js of None \<Rightarrow> w1
                     | Some dir \<Rightarrow>
                         LOGI ''JNI: Socket directory set to: %s'' [AStr (take (512 - 1) dir)] w1))"
  obtain wevs where cr: "pthread_create pf BridgeThreadFunc (bridgeThreadFunc pf g2) w2 =
     (if (g_socketDir g2 = [] \<or> g_StartBridgeMsgpackUDSWithDir g2 = NULL) \<and>
         g_StartBridgeMsgpackUDS g2 = NULL
      then NullCall else Returns 0,
      w2\<lparr>trace := trace w2 @ PthreadCreate BridgeThreadFunc
                # map (InThread BridgeThreadFunc) wevs\<rparr>)"
    using pthread_create_bridge [OF created] by blast
  have unfold: "startBridgeInBackground pf testMode socketDir g w =
     (case pthread_create pf BridgeThreadFunc (bridgeThreadFunc pf g2) w2 of
        (Returns result, w) \<Rightarrow>
          if result \<noteq> 0 then
            (Returns (- 2), g2, LOGE ''Failed to create bridge thread: %d'' [AInt result] w)
          else (Returns 0, g2,
                LOGI ''JNI: Bridge thread started successfully'' [] (usleep 500000 w))
      | (Blocks, w) \<Rightarrow> (Blocks, g2, w)
      | (NullCall, w) \<Rightarrow> (NullCall, g2, w))"
    using ok
    by (simp add: startBridgeInBackground_def init g2_def w2_def Let_def
        split: option.split outcome.split prod.split)
  have w2_shape: "\<exists>evs2. w2 = w\<lparr>trace := trace w @ evs2\<rparr> \<and> peer_calls evs2 = []"
    using quiet
    by (auto simp: w2_def w1 LOGI_def emit_def peer_calls_def split: option.split)
  then obtain evs2 where w2: "w2 = w\<lparr>trace := trace w @ evs2\<rparr>" and quiet2: "peer_calls evs2 = []"
    by blast
  have "(r, g', w') =
     (if (g_socketDir g2 = [] \<or> g_StartBridgeMsgpackUDSWithDir g2 = NULL) \<and>
         g_StartBridgeMsgpackUDS g2 = NULL
      then (NullCall, g2,
            w2\<lparr>trace := trace w2 @ PthreadCreate BridgeThreadFunc
                      # map (InThread BridgeThreadFunc) wevs\<rparr>)
      else (Returns 0, g2,
            LOGI ''JNI: Bridge thread started successfully'' []
              (usleep 500000
                 (w2\<lparr>trace := trace w2 @ PthreadCreate BridgeThreadFunc
                           # map (InThread BridgeThreadFunc) wevs\<rparr>))))"
    using run unfolding unfold cr by (auto split: if_splits)
  then show ?thesis
    using quiet2
    by (auto simp: w2 usleep_def LOGI_def emit_def since_def peer_calls_def split: if_splits)
qed

text \<open>
  C7 does not hold of the code in the half-resolved state. On a bridge library that
  exports \<open>TsyneInit\<close> only, once a first resolution attempt has failed, resolution
  reports success and the worker thread is created, but the worker logs its start and
  jumps through the null \<open>g_StartBridgeMsgpackUDS\<close>: the process ends, no settle delay
  is slept and \<open>startBridgeInBackground\<close> returns nothing. On a bridge library with the
  mandatory entry points the same call behaves as C7 says: the worker enters
  \<open>StartBridgeMsgpackUDS\<close> and logs its code 7, and the caller sleeps 500000
  microseconds, logs and returns 0.
\<close>

theorem startBridgeInBackground_worker_null_jump:
  "initFunctionPointers half_bridge half_statics (boot\<lparr>trace := half_trace\<rparr>) =
     (1, half_statics, boot\<lparr>trace := half_trace\<rparr>) \<and>
   pthread_create_ret half_bridge = 0 \<and>
   startBridgeInBackground half_bridge 0 None half_statics (boot\<lparr>trace := half_trace\<rparr>) =
     (NullCall, half_statics\<lparr>g_bridgeTestMode := 0\<rparr>, boot\<lparr>trace := half_start_trace\<rparr>) \<and>
   startBridgeInBackground phone 0 None statics0 boot =
     (Returns 0, phone_statics\<lparr>g_bridgeTestMode := 0\<rparr>,
      boot\<lparr>clock := 500000, trace := phone_start_trace\<rparr>)"
proof -
  have cached: "initFunctionPointers half_bridge half_statics w = (1, half_statics, w)" for w
    by (rule initFunctionPointers_cached) (simp add: half_statics_fields)
  have cr: "pthread_create_ret half_bridge = 0" "pthread_create_ret phone = 0"
    "peer_ret phone f args = Some 7" for f args
    by (simp_all add: half_bridge_def phone_def)
  have b0: "clock boot = 0" "trace boot = []"
    by (simp_all add: boot_def)
  have dead: "startBridgeInBackground half_bridge 0 None half_statics (boot\<lparr>trace := half_trace\<rparr>) =
     (NullCall, half_statics\<lparr>g_bridgeTestMode := 0\<rparr>, boot\<lparr>trace := half_start_trace\<rparr>)"
    by (simp add: startBridgeInBackground_def cached pthread_create_def cr bridgeThreadFunc_def
        half_statics_fields call_ptr_def LOGI_def emit_def Let_def half_start_trace_def)
  have live: "startBridgeInBackground phone 0 None statics0 boot =
     (Returns 0, phone_statics\<lparr>g_bridgeTestMode := 0\<rparr>,
      boot\<lparr>clock := 500000, trace := phone_start_trace\<rparr>)"
    by (simp add: startBridgeInBackground_def init_phone pthread_create_def cr bridgeThreadFunc_def
        phone_statics_fields call_ptr_def usleep_def LOGI_def emit_def Let_def
        phone_start_trace_def b0)
  from cached cr dead live show ?thesis by simp
qed

section \<open>Resolving never loads a library\<close>

text \<open>
  C5. Resolving a peer library, the bridge library in \<open>initFunctionPointers\<close> and the
  node library in \<open>initNode\<close>, never changes which libraries are resident, and every
  request it makes to \<open>dlopen\<close> carries \<open>RTLD_NOLOAD\<close>. When nothing is cached, the first
  thing it does is ask \<open>dlopen\<close> for the library by name with the flags
  \<open>RTLD_NOW | RTLD_NOLOAD\<close>; if the library is not resident then, resolution fails
  (returns 0) with a null handle, whether or not the linker could have loaded it.
\<close>

theorem resolve_requests_noload:
  assumes bridge: "initFunctionPointers pf g w = (ok, g', w')"
    and node: "initNode pf n v = (ok2, n', v')"
  shows
    "resident w' = resident w \<and> list_all requests_noload (since w w') \<and>
     (g_TsyneInit g = NULL \<longrightarrow>
        (\<exists>rest. since w w' = Dlopen ''libtsyne-bridge.so'' {RTLD_NOW, RTLD_NOLOAD} # rest) \<and>
        (resident w ''libtsyne-bridge.so'' = NULL \<longrightarrow> ok = 0 \<and> g_bridgeHandle g' = NULL)) \<and>
     resident v' = resident v \<and> list_all requests_noload (since v v') \<and>
     (g_nodeStart n = NULL \<longrightarrow>
        (\<exists>rest. since v v' = Dlopen ''libnode.so'' {RTLD_NOW, RTLD_NOLOAD} # rest) \<and>
        (resident v ''libnode.so'' = NULL \<longrightarrow> ok2 = 0 \<and> g_nodeHandle n' = NULL))"
  using initFunctionPointers_noload_case [where pf = pf and g = g and w = w]
    initFunctionPointers_frame [OF bridge]
    initNode_noload_case [where pf = pf and n = n and w = v]
    initNode_frame [OF node] bridge node
  by simp

theorem resolve_requests_noload_witness:
  "g_TsyneInit statics0 = NULL \<and> g_nodeStart node_statics0 = NULL \<and>
   resident cold ''libtsyne-bridge.so'' = NULL \<and> loadable phone ''libtsyne-bridge.so'' = 100 \<and>
   resident cold ''libnode.so'' = NULL \<and> loadable phone ''libnode.so'' = 200 \<and>
   fst (initFunctionPointers phone statics0 cold) = 0 \<and>
   resident (snd (snd (initFunctionPointers phone statics0 cold))) = resident cold \<and>
   fst (initNode phone node_statics0 cold) = 0 \<and>
   resident (snd (snd (initNode phone node_statics0 cold))) = resident cold"
proof -
  obtain ok g' w' where b: "initFunctionPointers phone statics0 cold = (ok, g', w')"
    by (cases "initFunctionPointers phone statics0 cold")
  obtain ok2 n' v' where n: "initNode phone node_statics0 cold = (ok2, n', v')"
    by (cases "initNode phone node_statics0 cold")
  have facts: "g_TsyneInit statics0 = NULL" "g_nodeStart node_statics0 = NULL"
    "resident cold ''libtsyne-bridge.so'' = NULL" "loadable phone ''libtsyne-bridge.so'' = 100"
    "resident cold ''libnode.so'' = NULL" "loadable phone ''libnode.so'' = 200"
    by (simp_all add: statics0_def node_statics0_def cold_def phone_def)
  show ?thesis
    using resolve_requests_noload [OF b n] facts
    by (simp add: b n)
qed

section \<open>Registering a render target without onFrame\<close>

text \<open>
  C8, as the code has it. Let \<open>startEmbeddedBridge\<close> be called with a non-null render
  target whose class has no method \<open>onFrame\<close> of signature \<open>(Ljava/nio/ByteBuffer;III)V\<close>.
  The call then fails with a negative sentinel: -1 when resolution fails, -2 when
  resolution succeeds but \<open>StartBridgeAndroidEmbedded\<close> is not resolved, and -3 when it
  gets as far as the registration. In that last case the stored target reference and
  method are null afterwards, the last thing the call did was to delete the global
  reference it had just made, and no worker thread was started. If no target was
  registered on entry, none is registered on exit.
\<close>

theorem startEmbeddedBridge_missing_onFrame:
  assumes target: "renderTarget \<noteq> NULL"
    and missing: "method_id pf (object_class pf renderTarget) ''onFrame''
                    ''(Ljava/nio/ByteBuffer;III)V'' = NULL"
    and init: "initFunctionPointers pf g w = (ok, g1, w1)"
    and run: "startEmbeddedBridge pf width height socketDir renderTarget g w = (r, g', w')"
  shows
    "(r = Returns (- 1) \<or> r = Returns (- 2) \<or> r = Returns (- 3)) \<and>
     (\<exists>c. r = Returns c \<and> sint c < 0) \<and>
     (ok = 0 \<longrightarrow> r = Returns (- 1)) \<and>
     (ok \<noteq> 0 \<and> g_StartBridgeAndroidEmbedded g1 = NULL \<longrightarrow> r = Returns (- 2)) \<and>
     (ok \<noteq> 0 \<and> g_StartBridgeAndroidEmbedded g1 \<noteq> NULL \<longrightarrow>
        r = Returns (- 3) \<and> g_renderSurface g' = NULL \<and> g_onFrameMethod g' = NULL \<and>
        last (trace w') = JDeleteGlobalRef (global_ref pf renderTarget) \<and>
        PthreadCreate EmbeddedBridgeThreadFunc \<notin> set (since w1 w')) \<and>
     (g_renderSurface g = NULL \<longrightarrow> g_renderSurface g' = NULL)"
proof -
  note other = initFunctionPointers_other_statics [OF init]
  have code: "(r = Returns (- 1) \<or> r = Returns (- 2) \<or> r = Returns (- 3)) \<and>
     (ok = 0 \<longrightarrow> r = Returns (- 1)) \<and>
     (ok \<noteq> 0 \<and> g_StartBridgeAndroidEmbedded g1 = NULL \<longrightarrow> r = Returns (- 2)) \<and>
     (ok \<noteq> 0 \<and> g_StartBridgeAndroidEmbedded g1 \<noteq> NULL \<longrightarrow>
        r = Returns (- 3) \<and> g_renderSurface g' = NULL \<and> g_onFrameMethod g' = NULL \<and>
        last (trace w') = JDeleteGlobalRef (global_ref pf renderTarget) \<and>
        PthreadCreate EmbeddedBridgeThreadFunc \<notin> set (since w1 w')) \<and>
     (g_renderSurface g = NULL \<longrightarrow> g_renderSurface g' = NULL)"
    using run target missing other
    by (auto simp: startEmbeddedBridge_def init NewGlobalRef_def GetMethodID_def
        DeleteGlobalRef_def LOGI_def LOGE_def emit_def since_def Let_def
        split: option.splits if_splits)
  then have "\<exists>c. r = Returns c \<and> sint c < 0" by auto
  with code show ?thesis by blast
qed

theorem startEmbeddedBridge_missing_onFrame_witness:
  "(20 :: ptr) \<noteq> NULL \<and>
   method_id tablet (object_class tablet 20) ''onFrame'' ''(Ljava/nio/ByteBuffer;III)V'' = NULL \<and>
   fst (initFunctionPointers tablet statics0 boot) \<noteq> 0 \<and>
   g_StartBridgeAndroidEmbedded (fst (snd (initFunctionPointers tablet statics0 boot))) \<noteq> NULL \<and>
   fst (startEmbeddedBridge tablet 1080 1920 None 20 statics0 boot) = Returns (- 3) \<and>
   g_renderSurface (fst (snd (startEmbeddedBridge tablet 1080 1920 None 20 statics0 boot))) = NULL"
proof -
  obtain ok g1 w1 where init: "initFunctionPointers tablet statics0 boot = (ok, g1, w1)"
    by (cases "initFunctionPointers tablet statics0 boot")
  obtain r g' w' where
    run: "startEmbeddedBridge tablet 1080 1920 None 20 statics0 boot = (r, g', w')"
    by (cases "startEmbeddedBridge tablet 1080 1920 None 20 statics0 boot")
  have fresh: "g_TsyneInit statics0 = NULL"
    by (simp add: statics0_def)
  have missing:
    "method_id tablet (object_class tablet 20) ''onFrame'' ''(Ljava/nio/ByteBuffer;III)V'' = NULL"
    by (simp add: tablet_jni)
  have ok: "ok \<noteq> 0"
    using initFunctionPointers_fresh_ok_iff [OF fresh, of tablet boot]
    by (simp add: init phone_bridge_symbols tablet_symbols)
  have emb: "g_StartBridgeAndroidEmbedded g1 \<noteq> NULL"
    using initFunctionPointers_pointers [OF fresh init ok]
    by (simp add: phone_bridge_symbols tablet_symbols)
  show ?thesis
    using startEmbeddedBridge_missing_onFrame [OF _ missing init run] missing ok emb
    by (simp add: init run)
qed

text \<open>
  C8, as stated, fails in two ways. With the bridge library not resident the call with
  such a target returns -1, not -3. And the registration state is not left unchanged:
  after object 22, whose class has \<open>onFrame\<close>, has been registered (stored reference 23),
  a further call with object 20, whose class lacks it, returns -3 and leaves the stored
  reference null.
\<close>

theorem startEmbeddedBridge_other_outcomes:
  "(20 :: ptr) \<noteq> NULL \<and>
   method_id phone (object_class phone 20) ''onFrame'' ''(Ljava/nio/ByteBuffer;III)V'' = NULL \<and>
   fst (startEmbeddedBridge phone 1080 1920 None 20 statics0 cold) = Returns (- 1) \<and>
   fst (startEmbeddedBridge tablet 1080 1920 None 22 statics0 boot) = Returns 0 \<and>
   fst (snd (startEmbeddedBridge tablet 1080 1920 None 22 statics0 boot)) = tablet_registered \<and>
   g_renderSurface tablet_registered = 23 \<and>
   method_id tablet (object_class tablet 20) ''onFrame'' ''(Ljava/nio/ByteBuffer;III)V'' = NULL \<and>
   fst (startEmbeddedBridge tablet 1080 1920 None 20 tablet_registered boot) = Returns (- 3) \<and>
   g_renderSurface (fst (snd (startEmbeddedBridge tablet 1080 1920 None 20 tablet_registered boot)))
     = NULL"
proof -
  have absent: "fst (initFunctionPointers phone statics0 cold) = 0"
    using initFunctionPointers_fresh_ok_iff [of statics0 phone cold]
    by (simp add: statics0_def cold_def)
  have a: "fst (startEmbeddedBridge phone 1080 1920 None 20 statics0 cold) = Returns (- 1)"
    using absent by (simp add: startEmbeddedBridge_def split_def)
  have emb: "g_StartBridgeAndroidEmbedded tablet_statics = 1004" "g_javaVM tablet_statics = NULL"
    by (simp_all add: tablet_statics_def statics0_def)
  have b: "fst (startEmbeddedBridge tablet 1080 1920 None 22 statics0 boot) = Returns 0 \<and>
      fst (snd (startEmbeddedBridge tablet 1080 1920 None 22 statics0 boot)) = tablet_registered"
    by (simp add: startEmbeddedBridge_def init_tablet emb tablet_jni NewGlobalRef_def
        GetMethodID_def pthread_create_def embeddedBridgeThreadFunc_def Let_def
        tablet_registered_def)
  have ptrs: "g_TsyneInit tablet_registered = 1001"
    "g_StartBridgeAndroidEmbedded tablet_registered = 1004"
    "g_renderSurface tablet_registered = 23"
    by (simp_all add: tablet_registered_def tablet_statics_def statics0_def)
  have cached: "initFunctionPointers tablet tablet_registered w = (1, tablet_registered, w)" for w
    by (rule initFunctionPointers_cached) (simp add: ptrs)
  have c: "fst (startEmbeddedBridge tablet 1080 1920 None 20 tablet_registered boot) = Returns (- 3) \<and>
     g_renderSurface (fst (snd (startEmbeddedBridge tablet 1080 1920 None 20 tablet_registered boot)))
       = NULL"
    by (simp add: startEmbeddedBridge_def cached ptrs tablet_jni NewGlobalRef_def GetMethodID_def
        DeleteGlobalRef_def Let_def)
  have d: "method_id phone (object_class phone 20) ''onFrame'' ''(Ljava/nio/ByteBuffer;III)V'' = NULL"
    by (simp add: phone_def)
  from a b c d ptrs show ?thesis
    by (simp add: tablet_jni)
qed

section \<open>Callback delivery and thread attachment\<close>

text \<open>
  C1, as the code has it. \<open>nativeRenderCallback\<close> always leaves the calling thread
  attached exactly when it found it attached, and it never detaches a thread that was
  attached on entry. With no VM captured or no target registered it does nothing. With
  both, on a thread that is not attached and that the VM refuses to attach, it asks
  \<open>GetEnv\<close>, tries to attach, logs the failure and returns, with no dispatch and no
  detach. When a frame can be delivered (VM captured, target and \<open>onFrame\<close> method
  registered, buffer object created): on a thread already attached the call asks
  \<open>GetEnv\<close>, wraps the pixels, dispatches \<open>onFrame\<close> and drops the local reference, with no
  attach and no detach; on a thread not attached, whose attaching succeeds, it attaches
  first, does the same dispatch, and detaches last.
\<close>

theorem nativeRenderCallback_keeps_attachment:
  "thread_attached (nativeRenderCallback pf pixels width height stride g w) = thread_attached w \<and>
   (thread_attached w \<longrightarrow>
      JDetachCurrentThread \<notin> set (since w (nativeRenderCallback pf pixels width height stride g w))) \<and>
   (g_javaVM g = NULL \<or> g_renderSurface g = NULL \<longrightarrow>
      nativeRenderCallback pf pixels width height stride g w = w) \<and>
   (g_javaVM g \<noteq> NULL \<and> g_renderSurface g \<noteq> NULL \<and> \<not> thread_attached w \<and>
    attach_ret pf \<noteq> JNI_OK \<longrightarrow>
      since w (nativeRenderCallback pf pixels width height stride g w) =
        [JGetEnv, JAttachCurrentThread,
         Log ANDROID_LOG_ERROR ''Failed to attach thread for render callback'' []]) \<and>
   (g_javaVM g \<noteq> NULL \<and> g_renderSurface g \<noteq> NULL \<and> g_onFrameMethod g \<noteq> NULL \<and>
    direct_buffer pf pixels (height * stride) \<noteq> NULL \<longrightarrow>
      (thread_attached w \<longrightarrow>
         since w (nativeRenderCallback pf pixels width height stride g w) =
           [JGetEnv,
            JNewDirectByteBuffer pixels (height * stride),
            JCallVoidMethod (g_renderSurface g) (g_onFrameMethod g)
              [APtr (direct_buffer pf pixels (height * stride)), AInt width, AInt height,
               AInt stride],
            JDeleteLocalRef (direct_buffer pf pixels (height * stride))]) \<and>
      (\<not> thread_attached w \<and> attach_ret pf = JNI_OK \<longrightarrow>
         since w (nativeRenderCallback pf pixels width height stride g w) =
           [JGetEnv,
            JAttachCurrentThread,
            JNewDirectByteBuffer pixels (height * stride),
            JCallVoidMethod (g_renderSurface g) (g_onFrameMethod g)
              [APtr (direct_buffer pf pixels (height * stride)), AInt width, AInt height,
               AInt stride],
            JDeleteLocalRef (direct_buffer pf pixels (height * stride)),
            JDetachCurrentThread]))"
  by (simp add: nativeRenderCallback_def GetEnv_def AttachCurrentThread_def
      DetachCurrentThread_def NewDirectByteBuffer_def CallVoidMethod_def DeleteLocalRef_def
      LOGE_def emit_def since_def JNI_OK_def JNI_EDETACHED_def Let_def)

theorem nativeRenderCallback_keeps_attachment_witness:
  "g_javaVM registered \<noteq> NULL \<and> g_renderSurface registered \<noteq> NULL \<and>
   g_onFrameMethod registered \<noteq> NULL \<and> direct_buffer phone 70 (1920 * 4320) \<noteq> NULL \<and>
   attach_ret phone = JNI_OK \<and> \<not> thread_attached boot \<and>
   thread_attached (boot\<lparr>thread_attached := True\<rparr>) \<and>
   trace (nativeRenderCallback phone 70 1080 1920 4320 registered boot) =
     [JGetEnv, JAttachCurrentThread, JNewDirectByteBuffer 70 (1920 * 4320),
      JCallVoidMethod 20 30 [APtr 60, AInt 1080, AInt 1920, AInt 4320],
      JDeleteLocalRef 60, JDetachCurrentThread] \<and>
   \<not> thread_attached (nativeRenderCallback phone 70 1080 1920 4320 registered boot) \<and>
   trace (nativeRenderCallback phone 70 1080 1920 4320 registered
            (boot\<lparr>thread_attached := True\<rparr>)) =
     [JGetEnv, JNewDirectByteBuffer 70 (1920 * 4320),
      JCallVoidMethod 20 30 [APtr 60, AInt 1080, AInt 1920, AInt 4320],
      JDeleteLocalRef 60] \<and>
   thread_attached
     (nativeRenderCallback phone 70 1080 1920 4320 registered (boot\<lparr>thread_attached := True\<rparr>)) \<and>
   g_javaVM statics0 = NULL \<and>
   nativeRenderCallback phone 70 1080 1920 4320 statics0 boot = boot \<and>
   attach_ret (phone\<lparr>attach_ret := - 1\<rparr>) \<noteq> JNI_OK \<and>
   \<not> thread_attached
       (nativeRenderCallback (phone\<lparr>attach_ret := - 1\<rparr>) 70 1080 1920 4320 registered boot)"
proof -
  have facts: "g_javaVM registered = 10" "g_renderSurface registered = 20"
    "g_onFrameMethod registered = 30" "direct_buffer phone a c = 60"
    "attach_ret phone = JNI_OK" "\<not> thread_attached boot" "trace boot = []"
    "g_javaVM statics0 = NULL" "attach_ret (phone\<lparr>attach_ret := - 1\<rparr>) \<noteq> JNI_OK" for a c
    by (simp_all add: registered_def statics0_def phone_def boot_def JNI_OK_def)
  show ?thesis
    using nativeRenderCallback_keeps_attachment [of phone 70 1080 1920 4320 registered boot]
      nativeRenderCallback_keeps_attachment [of phone 70 1080 1920 4320 registered
        "boot\<lparr>thread_attached := True\<rparr>"]
      nativeRenderCallback_keeps_attachment [of phone 70 1080 1920 4320 statics0 boot]
      nativeRenderCallback_keeps_attachment [of "phone\<lparr>attach_ret := - 1\<rparr>" 70 1080 1920 4320
        registered boot]
      facts
    by (simp add: since_def)
qed

text \<open>
  C1, as stated, fails when the VM refuses to attach the thread: the callback is called
  with a target registered on a thread that is not attached, and it neither dispatches
  nor detaches; its whole effect is the \<open>GetEnv\<close> query, the failed attempt to attach
  and the error log line.
\<close>

theorem nativeRenderCallback_attach_refused:
  "g_javaVM registered \<noteq> NULL \<and> g_renderSurface registered \<noteq> NULL \<and>
   g_onFrameMethod registered \<noteq> NULL \<and> \<not> thread_attached boot \<and>
   trace (nativeRenderCallback (phone\<lparr>attach_ret := - 1\<rparr>) 70 1080 1920 4320 registered boot) =
     [JGetEnv, JAttachCurrentThread,
      Log ANDROID_LOG_ERROR ''Failed to attach thread for render callback'' []]"
proof -
  have facts: "g_javaVM registered = 10" "g_renderSurface registered = 20"
    "g_onFrameMethod registered = 30" "\<not> thread_attached boot" "trace boot = []"
    by (simp_all add: registered_def statics0_def boot_def)
  show ?thesis
    by (simp add: nativeRenderCallback_def facts GetEnv_def AttachCurrentThread_def LOGE_def
        emit_def JNI_OK_def JNI_EDETACHED_def)
qed

section \<open>A mandatory symbol missing after TsyneInit was found\<close>

text \<open>
  C2. On a bridge library that exports \<open>TsyneInit\<close> but not \<open>StartBridgeMsgpackUDS\<close>, the
  first \<open>TsyneInit\<close> call of the process returns -1 without entering the peer, as the
  mandatory symbol cannot be resolved. It leaves \<open>g_TsyneInit\<close> set, so the next
  resolution reports success although \<open>g_StartBridgeMsgpackUDS\<close> is still null: the
  second \<open>TsyneInit\<close> call enters the peer and returns its code 7, and
  \<open>StartBridgeMsgpackUDS\<close> would call through the null pointer.
\<close>

theorem partial_resolution_sticks:
  "TsyneInit half_bridge 0 statics0 boot =
     (Returns (- 1), half_statics, boot\<lparr>trace := half_trace\<rparr>) \<and>
   g_StartBridgeMsgpackUDS half_statics = NULL \<and>
   initFunctionPointers half_bridge half_statics (boot\<lparr>trace := half_trace\<rparr>) =
     (1, half_statics, boot\<lparr>trace := half_trace\<rparr>) \<and>
   TsyneInit half_bridge 0 half_statics (boot\<lparr>trace := half_trace\<rparr>) =
     (Returns 7, half_statics,
      boot\<lparr>trace := half_trace @
        [Log ANDROID_LOG_INFO ''JNI: Calling TsyneInit(%d)'' [AInt 0],
         Call 1001 [AInt 0],
         Log ANDROID_LOG_INFO ''JNI: TsyneInit returned %d'' [AInt 7]]\<rparr>) \<and>
   fst (StartBridgeMsgpackUDS half_bridge 0 half_statics (boot\<lparr>trace := half_trace\<rparr>)) = NullCall"
proof -
  have ptrs: "g_TsyneInit half_statics = 1001" "g_StartBridgeMsgpackUDS half_statics = NULL"
    by (simp_all add: half_statics_def statics0_def)
  have cached: "initFunctionPointers half_bridge half_statics w = (1, half_statics, w)" for w
    by (rule initFunctionPointers_cached) (simp add: ptrs)
  show ?thesis
    by (simp add: TsyneInit_def StartBridgeMsgpackUDS_def init_half_bridge cached ptrs
        call_ptr_def half_bridge_symbols LOGI_def emit_def)
qed

section \<open>The socket path\<close>

text \<open>
  C3, as the code has it. With the socket directory unset (empty) the path query
  returns exactly \<open>/data/local/tmp/tsyne-<pid>.sock\<close>, \<open><pid>\<close> being the process id as
  \<open>%d\<close> prints it. With the socket directory holding a non-empty \<open>D\<close> such that
  \<open>D/tsyne-<pid>.sock\<close> is at most 255 bytes long, it returns exactly
  \<open>D/tsyne-<pid>.sock\<close>.
\<close>

theorem socket_path_within_buffer:
  "(g_socketDir g = [] \<longrightarrow>
      fst (getBridgeSocketPath pf g w) =
        ''/data/local/tmp/tsyne-'' @ fmt_d (getpid pf) @ ''.sock'') \<and>
   (g_socketDir g \<noteq> [] \<and> length (g_socketDir g) + length (fmt_d (getpid pf)) + 12 \<le> 255 \<longrightarrow>
      fst (getBridgeSocketPath pf g w) =
        g_socketDir g @ ''/tsyne-'' @ fmt_d (getpid pf) @ ''.sock'')"
  using length_fmt_d [of "getpid pf"]
  by (auto simp: getBridgeSocketPath_def snprintf_def Let_def)

theorem socket_path_within_buffer_witness:
  "g_socketDir statics0 = [] \<and>
   fst (getBridgeSocketPath phone statics0 boot) = ''/data/local/tmp/tsyne-4242.sock'' \<and>
   g_socketDir (statics0\<lparr>g_socketDir := ''/tmp/custom''\<rparr>) \<noteq> [] \<and>
   length (g_socketDir (statics0\<lparr>g_socketDir := ''/tmp/custom''\<rparr>))
     + length (fmt_d (getpid phone)) + 12 \<le> 255 \<and>
   fst (getBridgeSocketPath phone (statics0\<lparr>g_socketDir := ''/tmp/custom''\<rparr>) boot) =
     ''/tmp/custom/tsyne-4242.sock''"
proof -
  have pid: "getpid phone = 4242" and unset: "g_socketDir statics0 = []"
    by (simp_all add: phone_def statics0_def)
  show ?thesis
    using socket_path_within_buffer [of statics0 phone boot]
      socket_path_within_buffer [of "statics0\<lparr>g_socketDir := ''/tmp/custom''\<rparr>" phone boot]
    by (simp add: pid unset fmt_d_4242)
qed

text \<open>
  C3, as stated, fails for a long directory: \<open>startBridgeInBackground\<close> stores the
  250-byte directory \<open>long_dir\<close> whole, yet the path query then returns only the first
  255 bytes of \<open>long_dir/tsyne-4242.sock\<close>, which end in \<open>/tsyn\<close>.
\<close>

theorem socket_path_truncated:
  "g_socketDir (fst (snd (startBridgeInBackground phone 0 (Some long_dir) statics0 boot)))
     = long_dir \<and>
   fst (getBridgeSocketPath phone (statics0\<lparr>g_socketDir := long_dir\<rparr>) boot) \<noteq>
     long_dir @ ''/tsyne-'' @ fmt_d (getpid phone) @ ''.sock'' \<and>
   fst (getBridgeSocketPath phone (statics0\<lparr>g_socketDir := long_dir\<rparr>) boot)
     = long_dir @ ''/tsyn''"
proof -
  have pid: "getpid phone = 4242" and chars: "utf_chars phone s = Some s"
    and created: "pthread_create_ret phone = 0" for s
    by (simp_all add: phone_def)
  have len: "length long_dir = 250" and ne: "long_dir \<noteq> []"
    by (auto simp: long_dir_def)
  obtain r g' w' where
    run: "startBridgeInBackground phone 0 (Some long_dir) statics0 boot = (r, g', w')"
    by (cases "startBridgeInBackground phone 0 (Some long_dir) statics0 boot")
  obtain wevs where cr: "pthread_create phone BridgeThreadFunc
       (bridgeThreadFunc phone (phone_statics\<lparr>g_socketDir := long_dir, g_bridgeTestMode := 0\<rparr>))
       (LOGI ''JNI: Starting bridge in background thread (testMode=%d)'' [AInt 0]
          (LOGI ''JNI: Socket directory set to: %s'' [AStr long_dir]
             (boot\<lparr>trace := phone_init_trace\<rparr>))) =
     (Returns 0,
      (LOGI ''JNI: Starting bridge in background thread (testMode=%d)'' [AInt 0]
          (LOGI ''JNI: Socket directory set to: %s'' [AStr long_dir]
             (boot\<lparr>trace := phone_init_trace\<rparr>)))
      \<lparr>trace := trace (LOGI ''JNI: Starting bridge in background thread (testMode=%d)'' [AInt 0]
          (LOGI ''JNI: Socket directory set to: %s'' [AStr long_dir]
             (boot\<lparr>trace := phone_init_trace\<rparr>))) @ PthreadCreate BridgeThreadFunc
            # map (InThread BridgeThreadFunc) wevs\<rparr>)"
    using pthread_create_bridge [OF created,
        of "phone_statics\<lparr>g_socketDir := long_dir, g_bridgeTestMode := 0\<rparr>"]
    by (auto simp: phone_statics_fields)
  have set: "g' = phone_statics\<lparr>g_socketDir := long_dir, g_bridgeTestMode := 0\<rparr>"
    using run
    by (simp add: startBridgeInBackground_def init_phone chars len cr Let_def)
  have path: "fst (getBridgeSocketPath phone (statics0\<lparr>g_socketDir := long_dir\<rparr>) boot)
      = long_dir @ ''/tsyn''"
    by (simp add: getBridgeSocketPath_def snprintf_def pid fmt_d_4242 len ne Let_def)
  from set path show ?thesis
    by (simp add: run pid fmt_d_4242)
qed

end
